theory Spec2Isabelle
  imports Main "HOL-Library.Sublist" "HOL-Library.AList"
begin

section \<open>Asset fetcher and manifest builder (tools/fetch_assets.py)\<close>

text \<open>
  A shallow embedding of the asset acquisition script. Python \<open>str\<close> values are modelled as
  \<^typ>\<open>string\<close>; a \<^typ>\<open>char\<close> stands for one code point below 256. The test
  \<open>a in b\<close> on two strings is \<^const>\<open>sublist\<close> (a contiguous run of \<open>b\<close>). A function that
  can raise returns a sum, with the exception on the left; a function that changes files or
  uses the network takes the world and returns the new one. What the script prints and the
  pause between two texture downloads are left out.
\<close>

subsection \<open>Characters and strings\<close>

definition backslash :: char where
  "backslash = CHR 0x5C"

definition dquote :: char where
  "dquote = CHR 0x22"

definition squote :: char where
  "squote = CHR 0x27"

definition newline :: char where
  "newline = CHR 0x0A"

text \<open>The class \<open>\s\<close> of a \<open>str\<close> pattern, on the code points below 256.\<close>

definition is_space :: "char \<Rightarrow> bool" where
  "is_space c \<longleftrightarrow> c \<in> set [CHR 0x09, CHR 0x0A, CHR 0x0B, CHR 0x0C, CHR 0x0D, CHR 0x1C, CHR 0x1D,
     CHR 0x1E, CHR 0x1F, CHR 0x20, CHR 0x85, CHR 0xA0]"

text \<open>\<open>str.lower()\<close>: the ASCII capitals and the Latin-1 capitals move up by 32.\<close>

definition lower_char :: "char \<Rightarrow> char" where
  "lower_char c =
     (let n = of_char c :: nat in
      if (65 \<le> n \<and> n \<le> 90) \<or> (192 \<le> n \<and> n \<le> 222 \<and> n \<noteq> 215) then char_of (n + 32) else c)"

definition lower :: "string \<Rightarrow> string" where
  "lower s = map lower_char s"

text \<open>\<open>s.replace(c, '')\<close> for a one-character \<open>c\<close>.\<close>

definition strip_char :: "char \<Rightarrow> string \<Rightarrow> string" where
  "strip_char c s = filter (\<lambda>x. x \<noteq> c) s"

subsection \<open>Regular expressions of the link scrapers\<close>

text \<open>
  The pattern language that the link scrapers need: a literal character, the dot (any
  character but a newline) and a greedy \<open>+\<close> or \<open>*\<close> over a character class.
\<close>

datatype re_atom = Lit char | Dot | Plus "char \<Rightarrow> bool" | Star "char \<Rightarrow> bool"

text \<open>
  \<open>re_match r s\<close> matches \<open>r\<close> at the start of \<open>s\<close> the way a backtracking matcher does and
  returns what is left of \<open>s\<close> after the match. The \<open>+\<close> first tries to take one more character and
  gives characters back only when the rest of the pattern fails; so does the \<open>*\<close>.
\<close>

fun re_match :: "re_atom list \<Rightarrow> string \<Rightarrow> string option" where
  "re_match [] s = Some s"
| "re_match (Lit c # r) [] = None"
| "re_match (Lit c # r) (x # xs) = (if x = c then re_match r xs else None)"
| "re_match (Dot # r) [] = None"
| "re_match (Dot # r) (x # xs) = (if x \<noteq> newline then re_match r xs else None)"
| "re_match (Plus P # r) [] = None"
| "re_match (Plus P # r) (x # xs) =
     (if P x then
        (case re_match (Plus P # r) xs of
           Some t \<Rightarrow> Some t
         | None \<Rightarrow> re_match r xs)
      else None)"
| "re_match (Star P # r) [] = re_match r []"
| "re_match (Star P # r) (x # xs) =
     (if P x then
        (case re_match (Star P # r) xs of
           Some t \<Rightarrow> Some t
         | None \<Rightarrow> re_match r (x # xs))
      else re_match r (x # xs))"

text \<open>
  \<open>re.findall\<close>: scan from the left, collect each match and go on behind it. The counter is the
  number of characters of the last match that are still to be skipped.
\<close>

fun findall_from :: "re_atom list \<Rightarrow> nat \<Rightarrow> string \<Rightarrow> string list" where
  "findall_from r (Suc k) [] = []"
| "findall_from r 0 [] = (case re_match r [] of Some t \<Rightarrow> [[]] | None \<Rightarrow> [])"
| "findall_from r (Suc k) (x # xs) = findall_from r k xs"
| "findall_from r 0 (x # xs) =
     (case re_match r (x # xs) of
        Some t \<Rightarrow>
          (let n = length (x # xs) - length t
           in take n (x # xs) # findall_from r (n - 1) xs)
      | None \<Rightarrow> findall_from r 0 xs)"

definition findall :: "re_atom list \<Rightarrow> string \<Rightarrow> string list" where
  "findall r s = findall_from r 0 s"

text \<open>The class \<open>[^\"'<>\s]\<close>.\<close>

definition url_char :: "char \<Rightarrow> bool" where
  "url_char c \<longleftrightarrow> c \<noteq> dquote \<and> c \<noteq> squote \<and> c \<noteq> CHR ''<'' \<and> c \<noteq> CHR ''>'' \<and> \<not> is_space c"

text \<open>
  The pattern is written in the source as the raw string
  \<^verbatim>\<open>r"https://kenney\\.nl/[^\"'<>\s]+\\.zip"\<close>. In a raw string \<^verbatim>\<open>\\\<close> stays two characters,
  which the regular expression reads as one literal backslash; the dot behind it is the wildcard.
\<close>

definition kenney_zip_re :: "re_atom list" where
  "kenney_zip_re =
     map Lit ''https://kenney'' @ [Lit backslash, Dot] @ map Lit ''nl/'' @ [Plus url_char]
     @ [Lit backslash, Dot] @ map Lit ''zip''"

definition pick_best_kenney_zip_link :: "string \<Rightarrow> string option" where
  "pick_best_kenney_zip_link html =
     (let zips = findall kenney_zip_re html in
      if zips = [] then None
      else (case find (\<lambda>cand. sublist ''/media/pages/assets/'' cand \<and> sublist ''kenney_'' cand)
                   (rev zips) of
              Some cand \<Rightarrow> Some cand
            | None \<Rightarrow> Some (last zips)))"

text \<open>\<open>s.replace(old, '')\<close>: every occurrence of \<open>old\<close>, found from the left, is dropped.\<close>

fun remove_from :: "string \<Rightarrow> nat \<Rightarrow> string \<Rightarrow> string" where
  "remove_from old k [] = []"
| "remove_from old (Suc k) (x # xs) = remove_from old k xs"
| "remove_from old 0 (x # xs) =
     (if old \<noteq> [] \<and> prefix old (x # xs) then remove_from old (length old - 1) xs
      else x # remove_from old 0 xs)"

definition remove_all :: "string \<Rightarrow> string \<Rightarrow> string" where
  "remove_all old s = remove_from old 0 s"

text \<open>
  A model of \<open>fnmatch\<close> for patterns made of literal characters, \<open>*\<close> and \<open>?\<close>: the patterns
  that the source writes out are of this kind. The first argument is the pattern.
\<close>

fun wild_match :: "string \<Rightarrow> string \<Rightarrow> bool" where
  "wild_match [] [] = True"
| "wild_match [] (x # xs) = False"
| "wild_match (p # ps) [] = (p = CHR ''*'' \<and> wild_match ps [])"
| "wild_match (p # ps) (x # xs) =
     (if p = CHR ''*'' then wild_match ps (x # xs) \<or> wild_match (p # ps) xs
      else if p = CHR ''?'' \<or> p = x then wild_match ps xs
      else False)"

subsection \<open>Paths\<close>

text \<open>
  A \<open>Path\<close> is the list of its components below the file-system root; all paths are absolute
  and free of symbolic links, so that \<open>resolve()\<close> changes nothing.
\<close>

type_synonym path = "string list"

definition parent :: "path \<Rightarrow> path" where
  "parent p = butlast p"

definition name_of :: "path \<Rightarrow> string" where
  "name_of p = (if p = [] then [] else last p)"

fun join_with :: "string \<Rightarrow> string list \<Rightarrow> string" where
  "join_with sep [] = []"
| "join_with sep [x] = x"
| "join_with sep (x # y # ys) = x @ sep @ join_with sep (y # ys)"

definition path_str :: "path \<Rightarrow> string" where
  "path_str p = ''/'' @ join_with ''/'' p"

text \<open>\<open>Path.suffix\<close>: the part of the name from its last dot, unless the dot is first or last.\<close>

definition suffix_of :: "path \<Rightarrow> string" where
  "suffix_of p =
     (let nm = name_of p; ext = rev (takeWhile (\<lambda>c. c \<noteq> CHR ''.'') (rev nm)) in
      if CHR ''.'' \<in> set nm \<and> ext \<noteq> [] \<and> Suc (length ext) < length nm then CHR ''.'' # ext
      else [])"

subsection \<open>Errors, files and the world\<close>

datatype error =
    HTTPError nat
  | URLError
  | RuntimeError
  | FileNotFoundError
  | FileExistsError
  | NotADirectoryError
  | IsADirectoryError
  | SameFileError
  | BadZipFile
  | ValueError

record status =
  assets_downloaded :: bool
  asset_count :: nat
  warning :: string

text \<open>The manifest; dictionaries keep their insertion order, as \<open>json.dumps\<close> writes them.\<close>

record manifest =
  mf_version :: nat
  mf_generated_by :: string
  mf_generated_at :: string
  mf_use_external_assets :: bool
  mf_variants :: "(string \<times> string list) list"
  mf_textures :: "(string \<times> (string \<times> string) list) list"
  mf_packs_dir :: string
  mf_textures_dir :: string
  mf_status :: status

text \<open>
  A member of an archive, with its name relative to the extraction directory: a directory, a
  file with its data, or a file whose data is damaged (what was read of it is written, then
  the extraction raises).
\<close>

datatype zentry = ZDir path | ZFile path string | ZBad path string

datatype content = Bytes string | Zip "zentry list" | Json manifest

datatype node = Dir | File content

text \<open>
  The file system is the list of its entries, in the order in which a directory scan yields
  them. The root directory \<open>[]\<close> always exists.
\<close>

type_synonym fs = "(path \<times> node) list"

definition exists :: "fs \<Rightarrow> path \<Rightarrow> bool" where
  "exists fs p \<longleftrightarrow> p = [] \<or> map_of fs p \<noteq> None"

definition is_dir :: "fs \<Rightarrow> path \<Rightarrow> bool" where
  "is_dir fs p \<longleftrightarrow> p = [] \<or> map_of fs p = Some Dir"

definition is_file :: "fs \<Rightarrow> path \<Rightarrow> bool" where
  "is_file fs p \<longleftrightarrow> (case map_of fs p of Some (File c) \<Rightarrow> True | _ \<Rightarrow> False)"

text \<open>
  The answer to a download: the whole file, a transfer that breaks after some bytes, or no
  transfer at all.
\<close>

datatype net_reply = Served content | Broken string error | Refused error

text \<open>
  What the run cannot decide by itself: how a name is matched against a glob pattern
  (\<open>fnmatch name pattern\<close>, used by \<open>Path.glob\<close> and by \<open>fnmatch.fnmatch\<close>), what the network
  answers to a page request (the decoded text) and to a download, and the wall-clock time.
\<close>

record platform =
  fnmatch :: "string \<Rightarrow> string \<Rightarrow> bool"
  page :: "string \<Rightarrow> error + string"
  reply :: "string \<Rightarrow> net_reply"
  clock :: string

text \<open>The state of a run: the files and the network requests made so far, oldest first.\<close>

record world =
  files :: fs
  requests :: "string list"

subsection \<open>File-system operations\<close>

text \<open>\<open>d.glob(pat)\<close> for a pattern without a separator: the entries of \<open>d\<close> whose name matches.\<close>

definition glob :: "platform \<Rightarrow> fs \<Rightarrow> path \<Rightarrow> string \<Rightarrow> path list" where
  "glob pf fs d pat =
     (if is_dir fs d
      then map fst (filter (\<lambda>(p, n). p \<noteq> [] \<and> parent p = d \<and> fnmatch pf (name_of p) pat) fs)
      else [])"

text \<open>\<open>d.rglob("*")\<close>: everything below \<open>d\<close>.\<close>

definition rglob_all :: "fs \<Rightarrow> path \<Rightarrow> path list" where
  "rglob_all fs d =
     (if is_dir fs d then map fst (filter (\<lambda>(p, n). strict_prefix d p) fs) else [])"

text \<open>\<open>p.mkdir(parents=True, exist_ok=True)\<close>, walking down from the directory \<open>b\<close>.\<close>

fun mkdirs :: "fs \<Rightarrow> path \<Rightarrow> string list \<Rightarrow> error + fs" where
  "mkdirs fs b [] = Inr fs"
| "mkdirs fs b (c # cs) =
     (case map_of fs (b @ [c]) of
        Some (File x) \<Rightarrow> Inl (if cs = [] then FileExistsError else NotADirectoryError)
      | Some Dir \<Rightarrow> mkdirs fs (b @ [c]) cs
      | None \<Rightarrow> mkdirs (fs @ [(b @ [c], Dir)]) (b @ [c]) cs)"

definition mkdir_p :: "fs \<Rightarrow> path \<Rightarrow> error + fs" where
  "mkdir_p fs p = mkdirs fs [] p"

text \<open>Opening \<open>p\<close> for writing and writing \<open>c\<close>.\<close>

definition write_file :: "fs \<Rightarrow> path \<Rightarrow> content \<Rightarrow> error + fs" where
  "write_file fs p c =
     (if is_dir fs p then Inl IsADirectoryError
      else if is_file fs (parent p) then Inl NotADirectoryError
      else if \<not> is_dir fs (parent p) then Inl FileNotFoundError
      else Inr (AList.update p (File c) fs))"

text \<open>\<open>shutil.rmtree(p)\<close>.\<close>

definition rmtree :: "fs \<Rightarrow> path \<Rightarrow> error + fs" where
  "rmtree fs p =
     (case map_of fs p of
        Some Dir \<Rightarrow> Inr (filter (\<lambda>(q, n). \<not> prefix p q) fs)
      | Some (File c) \<Rightarrow> Inl NotADirectoryError
      | None \<Rightarrow> Inl FileNotFoundError)"

text \<open>\<open>shutil.copy2(src, dst)\<close>: a directory as destination receives the file under its own name.\<close>

definition copy2 :: "fs \<Rightarrow> path \<Rightarrow> path \<Rightarrow> error + fs" where
  "copy2 fs src dst =
     (case map_of fs src of
        Some (File c) \<Rightarrow>
          (let target = (if is_dir fs dst then dst @ [name_of src] else dst) in
           if target = src then Inl SameFileError else write_file fs target c)
      | Some Dir \<Rightarrow> Inl IsADirectoryError
      | None \<Rightarrow> Inl FileNotFoundError)"

text \<open>
  \<open>ZipFile.extractall(dst)\<close>: the members are written one after the other; a failure leaves
  what was written before it.
\<close>

definition extract_member :: "fs \<Rightarrow> path \<Rightarrow> path \<Rightarrow> string \<Rightarrow> error option \<times> fs" where
  "extract_member fs dst rel dat =
     (case mkdir_p fs (parent (dst @ rel)) of
        Inl e \<Rightarrow> (Some e, fs)
      | Inr fs' \<Rightarrow>
          (case write_file fs' (dst @ rel) (Bytes dat) of
             Inl e \<Rightarrow> (Some e, fs')
           | Inr fs'' \<Rightarrow> (None, fs'')))"

fun extractall :: "fs \<Rightarrow> path \<Rightarrow> zentry list \<Rightarrow> error option \<times> fs" where
  "extractall fs dst [] = (None, fs)"
| "extractall fs dst (ZDir rel # ms) =
     (case mkdir_p fs (dst @ rel) of
        Inl e \<Rightarrow> (Some e, fs)
      | Inr fs' \<Rightarrow> extractall fs' dst ms)"
| "extractall fs dst (ZFile rel dat # ms) =
     (case extract_member fs dst rel dat of
        (Some e, fs') \<Rightarrow> (Some e, fs')
      | (None, fs') \<Rightarrow> extractall fs' dst ms)"
| "extractall fs dst (ZBad rel dat # ms) =
     (case extract_member fs dst rel dat of
        (Some e, fs') \<Rightarrow> (Some e, fs')
      | (None, fs') \<Rightarrow> (Some BadZipFile, fs'))"

definition extract_zip :: "fs \<Rightarrow> path \<Rightarrow> path \<Rightarrow> error option \<times> fs" where
  "extract_zip fs zip_path dst_dir =
     (case mkdir_p fs dst_dir of
        Inl e \<Rightarrow> (Some e, fs)
      | Inr fs' \<Rightarrow>
          (case map_of fs' zip_path of
             Some (File (Zip ms)) \<Rightarrow> extractall fs' dst_dir ms
           | Some (File c) \<Rightarrow> (Some BadZipFile, fs')
           | Some Dir \<Rightarrow> (Some IsADirectoryError, fs')
           | None \<Rightarrow> (Some FileNotFoundError, fs')))"

text \<open>
  In a well-formed file system every entry lies in a directory. What extracting the member
  \<open>m\<close> into \<open>dst\<close> can create: the directories on the way and the file itself.
\<close>

definition wf_fs :: "fs \<Rightarrow> bool" where
  "wf_fs fs \<longleftrightarrow> list_all (\<lambda>(p, n). p \<noteq> [] \<and> is_dir fs (parent p)) fs"

fun created :: "path \<Rightarrow> zentry \<Rightarrow> path \<Rightarrow> node \<Rightarrow> bool" where
  "created dst (ZDir rel) q n \<longleftrightarrow> n = Dir \<and> prefix q (dst @ rel)"
| "created dst (ZFile rel dat) q n \<longleftrightarrow>
     (n = Dir \<and> prefix q (parent (dst @ rel))) \<or> (n = File (Bytes dat) \<and> q = dst @ rel)"
| "created dst (ZBad rel dat) q n \<longleftrightarrow>
     (n = Dir \<and> prefix q (parent (dst @ rel))) \<or> (n = File (Bytes dat) \<and> q = dst @ rel)"

subsection \<open>Classifying model files into variant pools\<close>

definition walk_files :: "fs \<Rightarrow> path \<Rightarrow> string list \<Rightarrow> path list" where
  "walk_files fs root exts =
     filter (\<lambda>p. is_file fs p \<and> lower (suffix_of p) \<in> set exts) (rglob_all fs root)"

text \<open>
  \<open>_rel_res_path\<close>: \<open>relative_to\<close> raises \<open>ValueError\<close> for a path that is not below the
  project root; the empty relative path prints as a dot.
\<close>

definition rel_res_path :: "path \<Rightarrow> path \<Rightarrow> error + string" where
  "rel_res_path project_root abs_path =
     (if prefix project_root abs_path then
        (let rel = drop (length project_root) abs_path;
             s = (if rel = [] then ''.'' else join_with ''/'' rel)
         in Inr (''res://'' @ map (\<lambda>c. if c = backslash then CHR ''/'' else c) s))
      else Inl ValueError)"

text \<open>The resource paths of a project: what \<open>_rel_res_path\<close> returns for a path below the root.\<close>

inductive res_path :: "path \<Rightarrow> string \<Rightarrow> bool" for project_root :: path where
  res_pathI: "prefix project_root p \<Longrightarrow> rel_res_path project_root p = Inr s \<Longrightarrow> res_path project_root s"

definition select_by_patterns :: "platform \<Rightarrow> path list \<Rightarrow> string list \<Rightarrow> string list \<Rightarrow> path list" where
  "select_by_patterns pf paths incl excl =
     filter (\<lambda>p.
        (if incl \<noteq> [] then list_ex (\<lambda>pat. fnmatch pf (lower (name_of p)) (lower pat)) incl else True)
        \<and> \<not> list_ex (\<lambda>pat. fnmatch pf (lower (name_of p)) (lower pat)) excl) paths"

definition model_files_of :: "fs \<Rightarrow> path list \<Rightarrow> path list" where
  "model_files_of fs pack_dirs =
     concat (map (\<lambda>d. walk_files fs d [''.glb'', ''.gltf'', ''.fbx'', ''.obj'']) pack_dirs)"

definition suburban :: "path list \<Rightarrow> path list" where
  "suburban model_files = filter (\<lambda>p. sublist ''suburban'' (lower (path_str p))) model_files"

definition industrial :: "path list \<Rightarrow> path list" where
  "industrial model_files = filter (\<lambda>p. sublist ''industrial'' (lower (path_str p))) model_files"

definition building_kit :: "path list \<Rightarrow> path list" where
  "building_kit model_files =
     filter (\<lambda>p. sublist ''building'' (lower (path_str p)) \<and> sublist ''kit'' (lower (path_str p)))
       model_files"

definition nature :: "path list \<Rightarrow> path list" where
  "nature model_files = filter (\<lambda>p. sublist ''nature'' (lower (path_str p))) model_files"

definition euro_candidates :: "platform \<Rightarrow> path list \<Rightarrow> path list" where
  "euro_candidates pf model_files =
     select_by_patterns pf (suburban model_files @ building_kit model_files)
       [''*house*'', ''*building*'', ''*home*'', ''*residence*'', ''*hut*'']
       [''*door*'', ''*window*'', ''*fence*'', ''*road*'', ''*lamp*'', ''*sign*'', ''*car*'']"

definition ind_candidates :: "platform \<Rightarrow> path list \<Rightarrow> path list" where
  "ind_candidates pf model_files =
     select_by_patterns pf (industrial model_files @ building_kit model_files)
       [''*factory*'', ''*warehouse*'', ''*hangar*'', ''*building*'', ''*shed*'', ''*container*'']
       [''*road*'', ''*lamp*'', ''*sign*'', ''*car*'']"

definition shack_candidates :: "platform \<Rightarrow> path list \<Rightarrow> path list" where
  "shack_candidates pf model_files =
     select_by_patterns pf (suburban model_files @ building_kit model_files)
       [''*hut*'', ''*cabin*'', ''*shack*'', ''*house*'', ''*small*'']
       [''*door*'', ''*window*'', ''*fence*'']"

definition tree_candidates :: "platform \<Rightarrow> path list \<Rightarrow> path list" where
  "tree_candidates pf model_files =
     select_by_patterns pf (nature model_files)
       [''*tree*'', ''*pine*'', ''*palm*'']
       [''*log*'', ''*stump*'', ''*leaf*'']"

definition conifer_candidates :: "platform \<Rightarrow> path list \<Rightarrow> path list" where
  "conifer_candidates pf model_files =
     filter (\<lambda>p. list_ex (\<lambda>k. sublist k (lower (name_of p))) [''pine'', ''fir'', ''spruce'', ''conifer''])
       (tree_candidates pf model_files)"

definition palm_candidates :: "platform \<Rightarrow> path list \<Rightarrow> path list" where
  "palm_candidates pf model_files =
     filter (\<lambda>p. sublist ''palm'' (lower (name_of p))) (tree_candidates pf model_files)"

definition broadleaf_candidates :: "platform \<Rightarrow> path list \<Rightarrow> path list" where
  "broadleaf_candidates pf model_files =
     (if conifer_candidates pf model_files = [] \<and> palm_candidates pf model_files = []
         \<and> tree_candidates pf model_files \<noteq> []
      then tree_candidates pf model_files
      else filter (\<lambda>p. p \<notin> set (conifer_candidates pf model_files)
                       \<and> p \<notin> set (palm_candidates pf model_files))
             (tree_candidates pf model_files))"

text \<open>The local function \<open>rp\<close>: the whole list is converted, the first failure raises.\<close>

fun rp :: "path \<Rightarrow> path list \<Rightarrow> error + string list" where
  "rp project_root [] = Inr []"
| "rp project_root (p # ps) =
     (case rel_res_path project_root p of
        Inl e \<Rightarrow> Inl e
      | Inr s \<Rightarrow> (case rp project_root ps of Inl e \<Rightarrow> Inl e | Inr ss \<Rightarrow> Inr (s # ss)))"

text \<open>The dictionary that \<open>build_variant_pools\<close> returns, entry after entry.\<close>

fun pools :: "path \<Rightarrow> (string \<times> path list \<times> nat) list \<Rightarrow> error + (string \<times> string list) list" where
  "pools project_root [] = Inr []"
| "pools project_root ((key, xs, cap) # rest) =
     (case rp project_root xs of
        Inl e \<Rightarrow> Inl e
      | Inr ss \<Rightarrow>
          (case pools project_root rest of
             Inl e \<Rightarrow> Inl e
           | Inr kvs \<Rightarrow> Inr ((key, take cap ss) # kvs)))"

definition build_variant_pools ::
  "platform \<Rightarrow> fs \<Rightarrow> path \<Rightarrow> path list \<Rightarrow> error + (string \<times> string list) list" where
  "build_variant_pools pf fs project_root pack_dirs =
     (let model_files = model_files_of fs pack_dirs in
      pools project_root
        [(''euro_buildings'', euro_candidates pf model_files, 24),
         (''industrial_buildings'', ind_candidates pf model_files, 24),
         (''beach_shacks'', shack_candidates pf model_files, 24),
         (''trees_conifer'', conifer_candidates pf model_files, 32),
         (''trees_broadleaf'', broadleaf_candidates pf model_files, 32),
         (''trees_palm'', palm_candidates pf model_files, 32)])"

subsection \<open>Texture sets\<close>

definition texture_mappings :: "(string \<times> string list) list" where
  "texture_mappings =
     [(''building_atlas_euro'', [''Bricks079'', ''Concrete023'']),
      (''building_atlas_industrial'', [''MetalPlates006'', ''Concrete023'']),
      (''terrain_grass'', [''Grass004'']),
      (''terrain_pavement'', [''Asphalt012'', ''Concrete023''])]"

text \<open>The six channel blocks of \<open>build_texture_sets\<close>, in their order: key and file-name ending.\<close>

definition channels :: "(string \<times> string) list" where
  "channels =
     [(''albedo'', ''Color.jpg''), (''normal'', ''NormalGL.jpg''), (''roughness'', ''Roughness.jpg''),
      (''metallic'', ''Metalness.jpg''), (''ao'', ''AmbientOcclusion.jpg''),
      (''height'', ''Displacement.jpg'')]"

fun texture_set_of ::
  "platform \<Rightarrow> fs \<Rightarrow> path \<Rightarrow> path \<Rightarrow> string \<Rightarrow> (string \<times> string) list \<Rightarrow> error + (string \<times> string) list" where
  "texture_set_of pf fs project_root tex_dir base_name [] = Inr []"
| "texture_set_of pf fs project_root tex_dir base_name ((chan, ending) # rest) =
     (case glob pf fs tex_dir (base_name @ ''*'' @ ending) of
        [] \<Rightarrow> texture_set_of pf fs project_root tex_dir base_name rest
      | f # others \<Rightarrow>
          (case rel_res_path project_root f of
             Inl e \<Rightarrow> Inl e
           | Inr s \<Rightarrow>
               (case texture_set_of pf fs project_root tex_dir base_name rest of
                  Inl e \<Rightarrow> Inl e
                | Inr ts \<Rightarrow> Inr ((chan, s) # ts))))"

text \<open>
  The inner loop over the candidate names of one key: the \<open>break\<close> sits under
  \<open>if texture_set\<close>, so a candidate whose set comes out empty passes the turn to the next.
\<close>

fun texture_set_for ::
  "platform \<Rightarrow> fs \<Rightarrow> path \<Rightarrow> path \<Rightarrow> string list \<Rightarrow> error + (string \<times> string) list option" where
  "texture_set_for pf fs project_root textures_dir [] = Inr None"
| "texture_set_for pf fs project_root textures_dir (tex_name # rest) =
     (case glob pf fs textures_dir (tex_name @ ''*'') of
        [] \<Rightarrow> texture_set_for pf fs project_root textures_dir rest
      | tex_dir # ds \<Rightarrow>
          (case texture_set_of pf fs project_root tex_dir
                  (remove_all ''_2K-JPG'' (name_of tex_dir)) channels of
             Inl e \<Rightarrow> Inl e
           | Inr texture_set \<Rightarrow>
               (if texture_set \<noteq> [] then Inr (Some texture_set)
                else texture_set_for pf fs project_root textures_dir rest)))"

fun texture_sets_of ::
  "platform \<Rightarrow> fs \<Rightarrow> path \<Rightarrow> path \<Rightarrow> (string \<times> string list) list
     \<Rightarrow> error + (string \<times> (string \<times> string) list) list" where
  "texture_sets_of pf fs project_root textures_dir [] = Inr []"
| "texture_sets_of pf fs project_root textures_dir ((key, texture_names) # rest) =
     (case texture_set_for pf fs project_root textures_dir texture_names of
        Inl e \<Rightarrow> Inl e
      | Inr found \<Rightarrow>
          (case texture_sets_of pf fs project_root textures_dir rest of
             Inl e \<Rightarrow> Inl e
           | Inr sets \<Rightarrow> Inr (case found of None \<Rightarrow> sets | Some ts \<Rightarrow> (key, ts) # sets)))"

text \<open>
  What one candidate name yields: the set built from the first entry that matches the name,
  and the empty set when nothing matches.
\<close>

definition candidate_set ::
  "platform \<Rightarrow> fs \<Rightarrow> path \<Rightarrow> path \<Rightarrow> string \<Rightarrow> error + (string \<times> string) list" where
  "candidate_set pf fs project_root textures_dir tex_name =
     (case glob pf fs textures_dir (tex_name @ ''*'') of
        [] \<Rightarrow> Inr []
      | tex_dir # ds \<Rightarrow>
          texture_set_of pf fs project_root tex_dir (remove_all ''_2K-JPG'' (name_of tex_dir)) channels)"

definition build_texture_sets ::
  "platform \<Rightarrow> fs \<Rightarrow> path \<Rightarrow> path \<Rightarrow> error + (string \<times> (string \<times> string) list) list" where
  "build_texture_sets pf fs project_root textures_dir =
     (if \<not> exists fs textures_dir then Inr []
      else texture_sets_of pf fs project_root textures_dir texture_mappings)"

subsection \<open>The manifest\<close>

definition empty_variants :: "(string \<times> string list) list" where
  "empty_variants =
     [(''euro_buildings'', []), (''industrial_buildings'', []), (''beach_shacks'', []),
      (''trees_conifer'', []), (''trees_broadleaf'', []), (''trees_palm'', [])]"

definition manifest_path_of :: "path \<Rightarrow> path" where
  "manifest_path_of project_root = project_root @ [''assets'', ''external'', ''manifest.json'']"

definition write_manifest ::
  "platform \<Rightarrow> path \<Rightarrow> path \<Rightarrow> path \<Rightarrow> (string \<times> string list) list \<Rightarrow> path list \<Rightarrow> world
     \<Rightarrow> (error + path) \<times> world" where
  "write_manifest pf project_root packs_dir textures_dir variants pack_dirs w =
     (let manifest_path = manifest_path_of project_root in
      case mkdir_p (files w) (parent manifest_path) of
        Inl e \<Rightarrow> (Inl e, w)
      | Inr fs1 \<Rightarrow>
          (let w1 = w\<lparr>files := fs1\<rparr>;
               has_assets = (length pack_dirs > 0);
               variants' = (if \<not> has_assets then empty_variants else variants)
           in case build_texture_sets pf fs1 project_root textures_dir of
                Inl e \<Rightarrow> (Inl e, w1)
              | Inr texture_sets \<Rightarrow>
                  (case rel_res_path project_root packs_dir of
                     Inl e \<Rightarrow> (Inl e, w1)
                   | Inr packs_res \<Rightarrow>
                       (case rel_res_path project_root textures_dir of
                          Inl e \<Rightarrow> (Inl e, w1)
                        | Inr textures_res \<Rightarrow>
                            (let data = \<lparr>mf_version = 2,
                                        mf_generated_by = ''tools/fetch_assets.py'',
                                        mf_generated_at = clock pf,
                                        mf_use_external_assets = has_assets,
                                        mf_variants = variants',
                                        mf_textures = texture_sets,
                                        mf_packs_dir = packs_res,
                                        mf_textures_dir = textures_res,
                                        mf_status = \<lparr>assets_downloaded = has_assets,
                                          asset_count = length pack_dirs,
                                          warning = (if \<not> has_assets
                                            then ''No assets were successfully downloaded. Using fallback values.''
                                            else ''Assets downloaded successfully.'')\<rparr>\<rparr>
                             in case write_file fs1 manifest_path (Json data) of
                                  Inl e \<Rightarrow> (Inl e, w1)
                                | Inr fs2 \<Rightarrow> (Inr manifest_path, w1\<lparr>files := fs2\<rparr>))))))"

subsection \<open>The catalogues\<close>

record kenney_pack =
  slug :: string
  page_url :: string

record ambientcg_texture =
  file_name :: string

record polyhaven_asset =
  ph_file_name :: string
  ph_url :: string

definition KENNEY_PACKS :: "kenney_pack list" where
  "KENNEY_PACKS =
     [\<lparr>slug = ''kenney_building-kit'', page_url = ''https://kenney.nl/assets/building-kit''\<rparr>,
      \<lparr>slug = ''kenney_city-kit-suburban'', page_url = ''https://kenney.nl/assets/city-kit-suburban''\<rparr>,
      \<lparr>slug = ''kenney_city-kit-industrial'', page_url = ''https://kenney.nl/assets/city-kit-industrial''\<rparr>,
      \<lparr>slug = ''kenney_city-kit-roads'', page_url = ''https://kenney.nl/assets/city-kit-roads''\<rparr>,
      \<lparr>slug = ''kenney_nature-kit'', page_url = ''https://kenney.nl/assets/nature-kit''\<rparr>]"

definition KENNEY_WW2_PACKS :: "kenney_pack list" where
  "KENNEY_WW2_PACKS =
     [\<lparr>slug = ''kenney_ww2'', page_url = ''https://kenney.nl/assets/ww2''\<rparr>,
      \<lparr>slug = ''kenney_tanks'', page_url = ''https://kenney.nl/assets/tanks''\<rparr>,
      \<lparr>slug = ''kenney_military-pack'', page_url = ''https://kenney.nl/assets/military-pack''\<rparr>]"

definition AMBIENTCG_TEXTURES :: "ambientcg_texture list" where
  "AMBIENTCG_TEXTURES =
     [\<lparr>file_name = ''Concrete023_2K-JPG.zip''\<rparr>, \<lparr>file_name = ''Asphalt012_2K-JPG.zip''\<rparr>,
      \<lparr>file_name = ''MetalPlates006_2K-JPG.zip''\<rparr>, \<lparr>file_name = ''Bricks079_2K-JPG.zip''\<rparr>,
      \<lparr>file_name = ''WoodPlanks010_2K-JPG.zip''\<rparr>, \<lparr>file_name = ''RoofTiles005_2K-JPG.zip''\<rparr>,
      \<lparr>file_name = ''Sand002_2K-JPG.zip''\<rparr>, \<lparr>file_name = ''Grass004_2K-JPG.zip''\<rparr>]"

definition AMBIENTCG_WW2_TEXTURES :: "ambientcg_texture list" where
  "AMBIENTCG_WW2_TEXTURES =
     [\<lparr>file_name = ''MetalRusted001_2K-JPG.zip''\<rparr>, \<lparr>file_name = ''ConcreteDamaged001_2K-JPG.zip''\<rparr>,
      \<lparr>file_name = ''WoodOld001_2K-JPG.zip''\<rparr>, \<lparr>file_name = ''FabricWorn001_2K-JPG.zip''\<rparr>,
      \<lparr>file_name = ''Dirt010_2K-JPG.zip''\<rparr>]"

definition POLYHAVEN_ASSETS :: "polyhaven_asset list" where
  "POLYHAVEN_ASSETS =
     [\<lparr>ph_file_name = ''hangar_01.zip'', ph_url = ''https://polyhaven.com/a/hangar_01''\<rparr>,
      \<lparr>ph_file_name = ''warehouse_01.zip'', ph_url = ''https://polyhaven.com/a/warehouse_01''\<rparr>,
      \<lparr>ph_file_name = ''factory_01.zip'', ph_url = ''https://polyhaven.com/a/factory_01''\<rparr>]"

definition POLYHAVEN_TEXTURES :: "ambientcg_texture list" where
  "POLYHAVEN_TEXTURES =
     [\<lparr>file_name = ''RustedIron001_2K-JPG.zip''\<rparr>, \<lparr>file_name = ''OldConcrete001_2K-JPG.zip''\<rparr>,
      \<lparr>file_name = ''WornMetal001_2K-JPG.zip''\<rparr>]"

subsection \<open>Network access\<close>

text \<open>\<open>_http_get\<close>, followed by the decoding of the page.\<close>

definition http_get :: "platform \<Rightarrow> string \<Rightarrow> world \<Rightarrow> (error + string) \<times> world" where
  "http_get pf u w = (page pf u, w\<lparr>requests := requests w @ [u]\<rparr>)"

text \<open>
  \<open>_download\<close>: the parent directory is made, the request is sent, and only then is the
  destination opened; a transfer that breaks leaves the bytes received so far.
\<close>

definition download :: "platform \<Rightarrow> string \<Rightarrow> path \<Rightarrow> world \<Rightarrow> (error + unit) \<times> world" where
  "download pf u dst w =
     (case mkdir_p (files w) (parent dst) of
        Inl e \<Rightarrow> (Inl e, w)
      | Inr fs1 \<Rightarrow>
          (let w1 = w\<lparr>files := fs1, requests := requests w @ [u]\<rparr> in
           case reply pf u of
             Refused e \<Rightarrow> (Inl e, w1)
           | Broken s e \<Rightarrow>
               (case write_file fs1 dst (Bytes s) of
                  Inl e' \<Rightarrow> (Inl e', w1)
                | Inr fs2 \<Rightarrow> (Inl e, w1\<lparr>files := fs2\<rparr>))
           | Served c \<Rightarrow>
               (case write_file fs1 dst c of
                  Inl e' \<Rightarrow> (Inl e', w1)
                | Inr fs2 \<Rightarrow> (Inr (), w1\<lparr>files := fs2\<rparr>))))"

subsection \<open>The ingest cache\<close>

definition get_ingest_dir :: "path \<Rightarrow> path" where
  "get_ingest_dir project_root = project_root @ [''assets'', ''ingest'']"

definition ensure_ingest_dir_exists :: "path \<Rightarrow> world \<Rightarrow> (error + path) \<times> world" where
  "ensure_ingest_dir_exists project_root w =
     (case mkdir_p (files w) (get_ingest_dir project_root) of
        Inl e \<Rightarrow> (Inl e, w)
      | Inr fs1 \<Rightarrow> (Inr (get_ingest_dir project_root), w\<lparr>files := fs1\<rparr>))"

text \<open>\<open>s.lower().replace('_', '').replace('-', '')\<close>.\<close>

definition normalized :: "string \<Rightarrow> string" where
  "normalized s = strip_char CHR ''-'' (strip_char CHR ''_'' (lower s))"

definition strip :: "string \<Rightarrow> string" where
  "strip s = rev (dropWhile is_space (rev (dropWhile is_space s)))"

text \<open>\<open>find_local_zip\<close>, the look-up with the normalised names; no fetcher calls it.\<close>

definition find_local_zip :: "platform \<Rightarrow> fs \<Rightarrow> path \<Rightarrow> string \<Rightarrow> path option" where
  "find_local_zip pf fs packs_dir pack_slug =
     (let ingest_dir = get_ingest_dir packs_dir in
      if exists fs ingest_dir then
        find (\<lambda>zip_file.
               sublist (normalized pack_slug) (normalized (name_of zip_file))
               \<or> sublist (strip (remove_all ''kenney'' (normalized pack_slug)))
                    (normalized (name_of zip_file)))
          (glob pf fs ingest_dir ''*.zip'')
      else None)"

text \<open>The look-up that \<open>fetch_kenney_pack\<close> does itself: both names are lower-cased only.\<close>

definition kenney_local_zip :: "platform \<Rightarrow> fs \<Rightarrow> path \<Rightarrow> kenney_pack \<Rightarrow> path option" where
  "kenney_local_zip pf fs ingest_dir pack =
     find (\<lambda>zip_file. sublist (lower (slug pack)) (lower (name_of zip_file)))
       (glob pf fs ingest_dir ''*.zip'')"

text \<open>The look-up of \<open>fetch_ambientcg_textures\<close>.\<close>

definition texture_local_zip :: "platform \<Rightarrow> fs \<Rightarrow> path \<Rightarrow> ambientcg_texture \<Rightarrow> path option" where
  "texture_local_zip pf fs ingest_dir tex =
     find (\<lambda>zip_file. sublist (lower (file_name tex)) (lower (name_of zip_file)))
       (glob pf fs ingest_dir ''*.zip'')"

text \<open>The look-up of \<open>fetch_polyhaven_asset\<close>, with the normalised names.\<close>

definition polyhaven_local_zip :: "platform \<Rightarrow> fs \<Rightarrow> path \<Rightarrow> polyhaven_asset \<Rightarrow> path option" where
  "polyhaven_local_zip pf fs project_root asset =
     (let ingest_dir = get_ingest_dir project_root in
      if exists fs ingest_dir then
        find (\<lambda>zip_file. sublist (normalized (ph_file_name asset)) (normalized (name_of zip_file)))
          (glob pf fs ingest_dir ''*.zip'')
      else None)"

subsection \<open>Fetching a Kenney pack\<close>

text \<open>The part of \<open>fetch_kenney_pack\<close> under \<open>else\<close>: page, link, download into the ingest cache.\<close>

definition kenney_download ::
  "platform \<Rightarrow> kenney_pack \<Rightarrow> path \<Rightarrow> world \<Rightarrow> (error + path) \<times> world" where
  "kenney_download pf pack ingest_dir w =
     (case http_get pf (page_url pack) w of
        (Inl e, w1) \<Rightarrow> (Inl e, w1)
      | (Inr html, w1) \<Rightarrow>
          (case pick_best_kenney_zip_link html of
             None \<Rightarrow> (Inl RuntimeError, w1)
           | Some zip_url \<Rightarrow>
               (if zip_url = [] then (Inl RuntimeError, w1)
                else (case download pf zip_url (ingest_dir @ [slug pack @ ''.zip'']) w1 of
                        (Inl e, w2) \<Rightarrow> (Inl e, w2)
                      | (Inr u, w2) \<Rightarrow> (Inr (ingest_dir @ [slug pack @ ''.zip'']), w2)))))"

text \<open>
  The part from \<open>packs_dir.mkdir\<close> on: the directory of the pack is removed when it exists,
  then the archive is extracted into it.
\<close>

definition kenney_extract ::
  "kenney_pack \<Rightarrow> path \<Rightarrow> path \<Rightarrow> world \<Rightarrow> (error + path) \<times> world" where
  "kenney_extract pack packs_dir local_zip w =
     (case mkdir_p (files w) packs_dir of
        Inl e \<Rightarrow> (Inl e, w)
      | Inr fs1 \<Rightarrow>
          (let out_dir = packs_dir @ [slug pack] in
           case (if exists fs1 out_dir then rmtree fs1 out_dir else Inr fs1) of
             Inl e \<Rightarrow> (Inl e, w\<lparr>files := fs1\<rparr>)
           | Inr fs2 \<Rightarrow>
               (case extract_zip fs2 local_zip out_dir of
                  (Some e, fs3) \<Rightarrow> (Inl e, w\<lparr>files := fs3\<rparr>)
                | (None, fs3) \<Rightarrow> (Inr out_dir, w\<lparr>files := fs3\<rparr>))))"

definition fetch_kenney_pack ::
  "platform \<Rightarrow> kenney_pack \<Rightarrow> path \<Rightarrow> path \<Rightarrow> world \<Rightarrow> (error + path) \<times> world" where
  "fetch_kenney_pack pf pack packs_dir project_root w =
     (case ensure_ingest_dir_exists project_root w of
        (Inl e, w1) \<Rightarrow> (Inl e, w1)
      | (Inr ingest_dir, w1) \<Rightarrow>
          (case kenney_local_zip pf (files w1) ingest_dir pack of
             Some local_zip \<Rightarrow> kenney_extract pack packs_dir local_zip w1
           | None \<Rightarrow>
               (case kenney_download pf pack ingest_dir w1 of
                  (Inl e, w2) \<Rightarrow> (Inl e, w2)
                | (Inr local_zip, w2) \<Rightarrow> kenney_extract pack packs_dir local_zip w2)))"

subsection \<open>Fetching the ambientCG textures\<close>

text \<open>
  The body of the loop from \<open>zips_dir\<close> on, for one texture whose archive is in the ingest
  cache: copy, remove the old directory, extract. Nothing here is under a \<open>try\<close>.
\<close>

definition texture_extract ::
  "ambientcg_texture \<Rightarrow> path \<Rightarrow> path \<Rightarrow> world \<Rightarrow> (error + path) \<times> world" where
  "texture_extract tex textures_dir local_zip w =
     (let zips_dir = textures_dir @ [''_zips''] in
      case mkdir_p (files w) zips_dir of
        Inl e \<Rightarrow> (Inl e, w)
      | Inr fs1 \<Rightarrow>
          (let out_zip = zips_dir @ [file_name tex] in
           case copy2 fs1 local_zip out_zip of
             Inl e \<Rightarrow> (Inl e, w\<lparr>files := fs1\<rparr>)
           | Inr fs2 \<Rightarrow>
               (let out_dir = textures_dir @ [remove_all ''.zip'' (file_name tex)] in
                case (if exists fs2 out_dir then rmtree fs2 out_dir else Inr fs2) of
                  Inl e \<Rightarrow> (Inl e, w\<lparr>files := fs2\<rparr>)
                | Inr fs3 \<Rightarrow>
                    (case extract_zip fs3 out_zip out_dir of
                       (Some e, fs4) \<Rightarrow> (Inl e, w\<lparr>files := fs4\<rparr>)
                     | (None, fs4) \<Rightarrow> (Inr out_dir, w\<lparr>files := fs4\<rparr>)))))"

text \<open>
  The loop of \<open>fetch_ambientcg_textures\<close>. A failed download goes on with the next texture
  (\<open>continue\<close>); an error of \<open>texture_extract\<close> leaves the loop and the function.
\<close>

fun textures_loop ::
  "platform \<Rightarrow> ambientcg_texture list \<Rightarrow> path \<Rightarrow> path \<Rightarrow> path list \<Rightarrow> world
     \<Rightarrow> (error + path list) \<times> world" where
  "textures_loop pf [] textures_dir ingest_dir extracted_dirs w = (Inr extracted_dirs, w)"
| "textures_loop pf (tex # rest) textures_dir ingest_dir extracted_dirs w =
     (case texture_local_zip pf (files w) ingest_dir tex of
        Some local_zip \<Rightarrow>
          (case texture_extract tex textures_dir local_zip w of
             (Inl e, w1) \<Rightarrow> (Inl e, w1)
           | (Inr out_dir, w1) \<Rightarrow>
               textures_loop pf rest textures_dir ingest_dir (extracted_dirs @ [out_dir]) w1)
      | None \<Rightarrow>
          (case download pf (''https://ambientcg.com/get?file='' @ file_name tex)
                  (ingest_dir @ [file_name tex]) w of
             (Inl e, w1) \<Rightarrow> textures_loop pf rest textures_dir ingest_dir extracted_dirs w1
           | (Inr u, w1) \<Rightarrow>
               (case texture_extract tex textures_dir (ingest_dir @ [file_name tex]) w1 of
                  (Inl e, w2) \<Rightarrow> (Inl e, w2)
                | (Inr out_dir, w2) \<Rightarrow>
                    textures_loop pf rest textures_dir ingest_dir (extracted_dirs @ [out_dir]) w2)))"

definition fetch_ambientcg_textures ::
  "platform \<Rightarrow> ambientcg_texture list \<Rightarrow> path \<Rightarrow> path \<Rightarrow> world \<Rightarrow> (error + path list) \<times> world" where
  "fetch_ambientcg_textures pf textures textures_dir project_root w =
     (case ensure_ingest_dir_exists project_root w of
        (Inl e, w1) \<Rightarrow> (Inl e, w1)
      | (Inr ingest_dir, w1) \<Rightarrow> textures_loop pf textures textures_dir ingest_dir [] w1)"

subsection \<open>Fetching a Poly Haven asset\<close>

text \<open>The class \<open>[^\"'< >\s]\<close>.\<close>

definition ph_char :: "char \<Rightarrow> bool" where
  "ph_char c \<longleftrightarrow> c \<noteq> dquote \<and> c \<noteq> squote \<and> c \<noteq> CHR ''<'' \<and> c \<noteq> CHR '' '' \<and> c \<noteq> CHR ''>''
     \<and> \<not> is_space c"

definition polyhaven_patterns :: "re_atom list list" where
  "polyhaven_patterns =
     [map Lit ''https://cdn.polyhaven.com/asset_downloads/'' @ [Plus ph_char] @ map Lit ''.zip'',
      map Lit ''https://polyhaven.com/a/'' @ [Plus ph_char] @ map Lit ''/download'' @ [Star ph_char],
      map Lit ''https://polyhaven.com/download_asset'' @ [Star ph_char],
      map Lit ''https://'' @ [Plus ph_char] @ map Lit ''polyhaven'' @ [Plus ph_char] @ map Lit ''.zip'',
      map Lit ''https://'' @ [Plus ph_char] @ map Lit ''/download?file='' @ [Plus ph_char]
        @ map Lit ''.zip'',
      map Lit ''https://'' @ [Plus ph_char] @ map Lit ''/get?file='' @ [Plus ph_char] @ map Lit ''.zip'',
      map Lit ''https://api.polyhaven.com/'' @ [Plus ph_char] @ map Lit ''.zip'',
      map Lit ''https://'' @ [Plus ph_char] @ map Lit ''/assets/'' @ [Plus ph_char]
        @ map Lit ''/download'' @ [Star ph_char]]"

fun first_download_match :: "re_atom list list \<Rightarrow> string \<Rightarrow> string option" where
  "first_download_match [] html = None"
| "first_download_match (pattern # rest) html =
     (case find (\<lambda>m. suffix ''.zip'' m \<or> sublist ''download'' (lower m)
                     \<or> sublist ''polyhaven.com/a/'' m)
             (findall pattern html) of
        Some m \<Rightarrow> Some m
      | None \<Rightarrow> first_download_match rest html)"

definition parse_polyhaven_download_url :: "string \<Rightarrow> string option" where
  "parse_polyhaven_download_url html =
     (case first_download_match polyhaven_patterns html of
        Some m \<Rightarrow> Some m
      | None \<Rightarrow>
          find (\<lambda>link. sublist ''download'' (lower link) \<or> sublist ''asset'' (lower link)
                       \<or> sublist ''cdn'' (lower link))
            (findall (map Lit ''https://'' @ [Plus ph_char] @ map Lit ''polyhaven'' @ [Plus ph_char])
               html))"

definition download_to_ingest ::
  "platform \<Rightarrow> string \<Rightarrow> string \<Rightarrow> path \<Rightarrow> world \<Rightarrow> (error + path) \<times> world" where
  "download_to_ingest pf u fname project_root w =
     (case ensure_ingest_dir_exists project_root w of
        (Inl e, w1) \<Rightarrow> (Inl e, w1)
      | (Inr ingest_dir, w1) \<Rightarrow>
          (case download pf u (ingest_dir @ [fname]) w1 of
             (Inl e, w2) \<Rightarrow> (Inl e, w2)
           | (Inr x, w2) \<Rightarrow> (Inr (ingest_dir @ [fname]), w2)))"

text \<open>The \<open>try\<close> block of \<open>fetch_polyhaven_asset\<close>: every exception in it ends in \<open>return None\<close>.\<close>

definition polyhaven_download ::
  "platform \<Rightarrow> polyhaven_asset \<Rightarrow> path \<Rightarrow> world \<Rightarrow> path option \<times> world" where
  "polyhaven_download pf asset project_root w =
     (case http_get pf (ph_url asset) w of
        (Inl e, w1) \<Rightarrow> (None, w1)
      | (Inr html, w1) \<Rightarrow>
          (case parse_polyhaven_download_url html of
             None \<Rightarrow> (None, w1)
           | Some download_url \<Rightarrow>
               (if download_url = [] then (None, w1)
                else (case download_to_ingest pf download_url (ph_file_name asset) project_root w1 of
                        (Inl e, w2) \<Rightarrow> (None, w2)
                      | (Inr local_zip, w2) \<Rightarrow> (Some local_zip, w2)))))"

text \<open>
  The part from \<open>packs_dir.mkdir\<close> on; only the extraction is under a \<open>try\<close>, which turns
  its failure into \<open>None\<close>.
\<close>

definition polyhaven_extract ::
  "polyhaven_asset \<Rightarrow> path \<Rightarrow> path \<Rightarrow> world \<Rightarrow> (error + path option) \<times> world" where
  "polyhaven_extract asset packs_dir local_zip w =
     (case mkdir_p (files w) packs_dir of
        Inl e \<Rightarrow> (Inl e, w)
      | Inr fs1 \<Rightarrow>
          (let out_zip = packs_dir @ [''polyhaven_'' @ ph_file_name asset] in
           case copy2 fs1 local_zip out_zip of
             Inl e \<Rightarrow> (Inl e, w\<lparr>files := fs1\<rparr>)
           | Inr fs2 \<Rightarrow>
               (let out_dir = packs_dir @ [''polyhaven_'' @ remove_all ''.zip'' (ph_file_name asset)] in
                case (if exists fs2 out_dir then rmtree fs2 out_dir else Inr fs2) of
                  Inl e \<Rightarrow> (Inl e, w\<lparr>files := fs2\<rparr>)
                | Inr fs3 \<Rightarrow>
                    (case extract_zip fs3 out_zip out_dir of
                       (Some e, fs4) \<Rightarrow> (Inr None, w\<lparr>files := fs4\<rparr>)
                     | (None, fs4) \<Rightarrow> (Inr (Some out_dir), w\<lparr>files := fs4\<rparr>)))))"

definition fetch_polyhaven_asset ::
  "platform \<Rightarrow> polyhaven_asset \<Rightarrow> path \<Rightarrow> path \<Rightarrow> world \<Rightarrow> (error + path option) \<times> world" where
  "fetch_polyhaven_asset pf asset packs_dir project_root w =
     (case polyhaven_local_zip pf (files w) project_root asset of
        Some local_zip \<Rightarrow> polyhaven_extract asset packs_dir local_zip w
      | None \<Rightarrow>
          (case polyhaven_download pf asset project_root w of
             (None, w1) \<Rightarrow> (Inr None, w1)
           | (Some local_zip, w1) \<Rightarrow> polyhaven_extract asset packs_dir local_zip w1))"

subsection \<open>The command line and the run\<close>

text \<open>The parsed flags; \<open>project\<close> is the path given with \<open>--project\<close>, resolved.\<close>

record args =
  project :: path
  no_textures :: bool
  local_only :: bool
  ww2_assets :: bool
  ww2_textures :: bool
  polyhaven :: bool
  list_assets :: bool
  all_assets :: bool

text \<open>\<open>find_project_root\<close>: at most twelve directories are looked at, from \<open>start\<close> upwards.\<close>

fun find_root_from :: "fs \<Rightarrow> nat \<Rightarrow> path \<Rightarrow> path option" where
  "find_root_from fs 0 cur = None"
| "find_root_from fs (Suc n) cur =
     (if exists fs (cur @ [''project.godot'']) then Some cur
      else if parent cur = cur then None
      else find_root_from fs n (parent cur))"

definition find_project_root :: "fs \<Rightarrow> path \<Rightarrow> error + path" where
  "find_project_root fs start =
     (case find_root_from fs 12 (if is_file fs start then parent start else start) of
        Some cur \<Rightarrow> Inr cur
      | None \<Rightarrow> Inl FileNotFoundError)"

text \<open>The loop of \<open>main\<close> over a list of Kenney packs: a failed pack is logged and left out.\<close>

fun fetch_kenney_packs ::
  "platform \<Rightarrow> kenney_pack list \<Rightarrow> path \<Rightarrow> path \<Rightarrow> path list \<Rightarrow> world \<Rightarrow> path list \<times> world" where
  "fetch_kenney_packs pf [] packs_dir project_root pack_dirs w = (pack_dirs, w)"
| "fetch_kenney_packs pf (pack # rest) packs_dir project_root pack_dirs w =
     (case fetch_kenney_pack pf pack packs_dir project_root w of
        (Inl e, w1) \<Rightarrow> fetch_kenney_packs pf rest packs_dir project_root pack_dirs w1
      | (Inr out_dir, w1) \<Rightarrow>
          fetch_kenney_packs pf rest packs_dir project_root (pack_dirs @ [out_dir]) w1)"

fun fetch_polyhaven_assets ::
  "platform \<Rightarrow> polyhaven_asset list \<Rightarrow> path \<Rightarrow> path \<Rightarrow> path list \<Rightarrow> world \<Rightarrow> path list \<times> world" where
  "fetch_polyhaven_assets pf [] packs_dir project_root pack_dirs w = (pack_dirs, w)"
| "fetch_polyhaven_assets pf (asset # rest) packs_dir project_root pack_dirs w =
     (case fetch_polyhaven_asset pf asset packs_dir project_root w of
        (Inr (Some pack_dir), w1) \<Rightarrow>
          fetch_polyhaven_assets pf rest packs_dir project_root (pack_dirs @ [pack_dir]) w1
      | (r, w1) \<Rightarrow> fetch_polyhaven_assets pf rest packs_dir project_root pack_dirs w1)"

text \<open>One \<open>try\<close> around one call of \<open>fetch_ambientcg_textures\<close>; its result is dropped.\<close>

definition try_textures ::
  "platform \<Rightarrow> ambientcg_texture list \<Rightarrow> path \<Rightarrow> path \<Rightarrow> world \<Rightarrow> world" where
  "try_textures pf textures textures_dir project_root w =
     snd (fetch_ambientcg_textures pf textures textures_dir project_root w)"

text \<open>
  The fetching part of \<open>main\<close>, after \<open>--all\<close> has set its three flags: the list of pack
  directories and the world it leaves. No line of it reads \<open>local_only\<close>.
\<close>

definition fetch_everything :: "platform \<Rightarrow> args \<Rightarrow> path \<Rightarrow> world \<Rightarrow> path list \<times> world" where
  "fetch_everything pf a project_root w =
     (let packs_dir = project_root @ [''assets'', ''external'', ''packs''];
          textures_dir = project_root @ [''assets'', ''external'', ''textures'', ''ambientcg''];
          (pack_dirs1, w1) = fetch_kenney_packs pf KENNEY_PACKS packs_dir project_root [] w;
          (pack_dirs2, w2) =
            (if ww2_assets a
             then fetch_kenney_packs pf KENNEY_WW2_PACKS packs_dir project_root pack_dirs1 w1
             else (pack_dirs1, w1));
          (pack_dirs3, w3) =
            (if polyhaven a
             then fetch_polyhaven_assets pf POLYHAVEN_ASSETS packs_dir project_root pack_dirs2 w2
             else (pack_dirs2, w2));
          w4 = (if \<not> no_textures a
                then (let w31 = try_textures pf AMBIENTCG_TEXTURES textures_dir project_root w3;
                          w32 = (if ww2_textures a
                                 then try_textures pf AMBIENTCG_WW2_TEXTURES textures_dir project_root w31
                                 else w31)
                      in if polyhaven a
                         then try_textures pf POLYHAVEN_TEXTURES textures_dir project_root w32
                         else w32)
                else w3)
      in (pack_dirs3, w4))"

definition apply_all :: "args \<Rightarrow> args" where
  "apply_all a =
     (if all_assets a then a\<lparr>ww2_assets := True, ww2_textures := True, polyhaven := True\<rparr> else a)"

text \<open>
  \<open>main\<close>: the exit code, or the exception that leaves it, and the world after the run.
\<close>

definition main :: "platform \<Rightarrow> args \<Rightarrow> world \<Rightarrow> (error + nat) \<times> world" where
  "main pf a w =
     (case find_project_root (files w) (project a) of
        Inl e \<Rightarrow> (Inl e, w)
      | Inr project_root \<Rightarrow>
          (if list_assets a then (Inr 0, w)
           else
             (let packs_dir = project_root @ [''assets'', ''external'', ''packs''];
                  textures_dir = project_root @ [''assets'', ''external'', ''textures'', ''ambientcg''];
                  (pack_dirs, w1) = fetch_everything pf (apply_all a) project_root w
              in case build_variant_pools pf (files w1) project_root pack_dirs of
                   Inl e \<Rightarrow> (Inl e, w1)
                 | Inr variants \<Rightarrow>
                     (case write_manifest pf project_root packs_dir textures_dir variants pack_dirs w1 of
                        (Inl e, w2) \<Rightarrow> (Inl e, w2)
                      | (Inr manifest_path, w2) \<Rightarrow> (Inr 0, w2)))))"

subsection \<open>A platform without network, and sample projects\<close>

text \<open>
  For the concrete runs below: names are matched with \<^const>\<open>wild_match\<close> and every request
  fails, as on a machine that is offline.
\<close>

definition offline :: platform where
  "offline =
     \<lparr>fnmatch = (\<lambda>nm pat. wild_match pat nm), page = (\<lambda>u. Inl URLError),
      reply = (\<lambda>u. Refused URLError), clock = ''2026-01-01 00:00:00''\<rparr>"

definition default_args :: args where
  "default_args =
     \<lparr>project = [''game''], no_textures = False, local_only = False, ww2_assets = False,
      ww2_textures = False, polyhaven = False, list_assets = False, all_assets = False\<rparr>"

text \<open>A project directory with an empty ingest cache.\<close>

definition bare_project :: fs where
  "bare_project =
     [([''game''], Dir), ([''game'', ''project.godot''], File (Bytes [])),
      ([''game'', ''assets''], Dir), ([''game'', ''assets'', ''ingest''], Dir)]"


text \<open>
  The project with a valid archive of the second base texture, and the one with a damaged
  archive of the first base texture in front of it.
\<close>

definition asphalt_cached :: fs where
  "asphalt_cached =
     bare_project @
     [([''game'', ''assets'', ''ingest'', ''Asphalt012_2K-JPG.zip''],
       File (Zip [ZFile [''Asphalt012_2K-JPG_Color.jpg''] ''jpeg'']))]"

definition broken_texture :: fs where
  "broken_texture =
     bare_project @
     [([''game'', ''assets'', ''ingest'', ''Concrete023_2K-JPG.zip''], File (Bytes ''truncated'')),
      ([''game'', ''assets'', ''ingest'', ''Asphalt012_2K-JPG.zip''],
       File (Zip [ZFile [''Asphalt012_2K-JPG_Color.jpg''] ''jpeg'']))]"

text \<open>Re-runs: a pack directory of an earlier run with a file that the new archive lacks.\<close>

definition game_packs :: path where
  "game_packs = [''game'', ''assets'', ''external'', ''packs'']"

definition building_kit_pack :: kenney_pack where
  "building_kit_pack =
     \<lparr>slug = ''kenney_building-kit'', page_url = ''https://kenney.nl/assets/building-kit''\<rparr>"

definition hangar_asset :: polyhaven_asset where
  "hangar_asset = \<lparr>ph_file_name = ''hangar_01.zip'', ph_url = ''https://polyhaven.com/a/hangar_01''\<rparr>"

definition stale_pack :: fs where
  "stale_pack =
     bare_project @
     [([''game'', ''assets'', ''ingest'', ''kenney_building-kit.zip''],
       File (Zip [ZFile [''Models'', ''house-new.glb''] ''new''])),
      ([''game'', ''assets'', ''external''], Dir),
      ([''game'', ''assets'', ''external'', ''packs''], Dir),
      ([''game'', ''assets'', ''external'', ''packs'', ''kenney_building-kit''], Dir),
      ([''game'', ''assets'', ''external'', ''packs'', ''kenney_building-kit'', ''house-old.glb''],
       File (Bytes ''old''))]"

definition stale_asset :: fs where
  "stale_asset =
     bare_project @
     [([''game'', ''assets'', ''ingest'', ''hangar_01.zip''],
       File (Zip [ZFile [''hangar-new.glb''] ''new''])),
      ([''game'', ''assets'', ''external''], Dir),
      ([''game'', ''assets'', ''external'', ''packs''], Dir),
      ([''game'', ''assets'', ''external'', ''packs'', ''polyhaven_hangar_01''], Dir),
      ([''game'', ''assets'', ''external'', ''packs'', ''polyhaven_hangar_01'', ''hangar-old.glb''],
       File (Bytes ''old''))]"

definition stale_pack_world :: world where
  "stale_pack_world = \<lparr>files = stale_pack, requests = []\<rparr>"

definition stale_asset_world :: world where
  "stale_asset_world = \<lparr>files = stale_asset, requests = []\<rparr>"

text \<open>
  A textures directory in which the directory of the first candidate of \<open>building_atlas_euro\<close>
  holds no channel file, and the directory of the second holds one.
\<close>

definition game_textures :: path where
  "game_textures = [''game'', ''assets'', ''external'', ''textures'', ''ambientcg'']"

definition bricks_empty :: fs where
  "bricks_empty =
     bare_project @
     [([''game'', ''assets'', ''external''], Dir),
      ([''game'', ''assets'', ''external'', ''textures''], Dir),
      (game_textures, Dir),
      (game_textures @ [''Bricks079_2K-JPG''], Dir),
      (game_textures @ [''Bricks079_2K-JPG'', ''readme.txt''], File (Bytes ''see ambientcg.com'')),
      (game_textures @ [''Concrete023_2K-JPG''], Dir),
      (game_textures @ [''Concrete023_2K-JPG'', ''Concrete023_2K-JPG_Color.jpg''],
       File (Bytes ''jpeg''))]"




text \<open>A project whose ingest cache holds one model pack and one texture.\<close>

definition pack_cached :: fs where
  "pack_cached =
     bare_project @
     [([''game'', ''assets'', ''ingest'', ''kenney_building-kit.zip''],
       File (Zip [ZFile [''Models'', ''house.glb''] ''glb''])),
      ([''game'', ''assets'', ''ingest'', ''Grass004_2K-JPG.zip''],
       File (Zip [ZFile [''Grass004_2K-JPG_Color.jpg''] ''jpeg'']))]"

text \<open>What the builders return on these samples.\<close>

definition concrete_albedo :: "(string \<times> string) list" where
  "concrete_albedo =
     [(''albedo'',
       ''res://assets/external/textures/ambientcg/Concrete023_2K-JPG/Concrete023_2K-JPG_Color.jpg'')]"

definition bricks_empty_sets :: "(string \<times> (string \<times> string) list) list" where
  "bricks_empty_sets =
     [(''building_atlas_euro'', concrete_albedo), (''building_atlas_industrial'', concrete_albedo),
      (''terrain_pavement'', concrete_albedo)]"


definition pack_cached_world :: world where
  "pack_cached_world = \<lparr>files = pack_cached, requests = []\<rparr>"


definition broken_texture_after :: world where
  "broken_texture_after =
     \<lparr>files =
         [([''game''], Dir), ([''game'', ''project.godot''], File (Bytes [])),
          ([''game'', ''assets''], Dir),
          ([''game'', ''assets'', ''ingest''], Dir),
          ([''game'', ''assets'', ''ingest'', ''Concrete023_2K-JPG.zip''],
           File (Bytes ''truncated'')),
          ([''game'', ''assets'', ''ingest'', ''Asphalt012_2K-JPG.zip''],
           File (Zip [ZFile [''Asphalt012_2K-JPG_Color.jpg''] ''jpeg''])),
          ([''game'', ''assets'', ''external''], Dir),
          ([''game'', ''assets'', ''external'', ''textures''], Dir),
          ([''game'', ''assets'', ''external'', ''textures'', ''ambientcg''],
           Dir),
          ([''game'', ''assets'', ''external'', ''textures'', ''ambientcg'',
            ''_zips''],
           Dir),
          ([''game'', ''assets'', ''external'', ''textures'', ''ambientcg'',
            ''_zips'', ''Concrete023_2K-JPG.zip''],
           File (Bytes ''truncated'')),
          ([''game'', ''assets'', ''external'', ''textures'', ''ambientcg'',
            ''Concrete023_2K-JPG''],
           Dir),
          ([''game'', ''assets'', ''external'', ''manifest.json''],
           File
            (Json
              \<lparr>mf_version = 2, mf_generated_by = ''tools/fetch_assets.py'',
                 mf_generated_at = ''2026-01-01 00:00:00'',
                 mf_use_external_assets = False,
                 mf_variants =
                   [(''euro_buildings'', []), (''industrial_buildings'', []),
                    (''beach_shacks'', []), (''trees_conifer'', []),
                    (''trees_broadleaf'', []), (''trees_palm'', [])],
                 mf_textures = [],
                 mf_packs_dir = ''res://assets/external/packs'',
                 mf_textures_dir = ''res://assets/external/textures/ambientcg'',
                 mf_status =
                   \<lparr>assets_downloaded = False, asset_count = 0,
                      warning =
                        ''No assets were successfully downloaded. Using fallback values.''\<rparr>\<rparr>))],
         requests =
           [''https://kenney.nl/assets/building-kit'',
            ''https://kenney.nl/assets/city-kit-suburban'',
            ''https://kenney.nl/assets/city-kit-industrial'',
            ''https://kenney.nl/assets/city-kit-roads'',
            ''https://kenney.nl/assets/nature-kit'']\<rparr>"

definition asphalt_cached_after :: world where
  "asphalt_cached_after =
     \<lparr>files =
         [([''game''], Dir), ([''game'', ''project.godot''], File (Bytes [])),
          ([''game'', ''assets''], Dir),
          ([''game'', ''assets'', ''ingest''], Dir),
          ([''game'', ''assets'', ''ingest'', ''Asphalt012_2K-JPG.zip''],
           File (Zip [ZFile [''Asphalt012_2K-JPG_Color.jpg''] ''jpeg''])),
          ([''game'', ''assets'', ''external''], Dir),
          ([''game'', ''assets'', ''external'', ''textures''], Dir),
          ([''game'', ''assets'', ''external'', ''textures'', ''ambientcg''],
           Dir),
          ([''game'', ''assets'', ''external'', ''textures'', ''ambientcg'',
            ''_zips''],
           Dir),
          ([''game'', ''assets'', ''external'', ''textures'', ''ambientcg'',
            ''_zips'', ''Asphalt012_2K-JPG.zip''],
           File (Zip [ZFile [''Asphalt012_2K-JPG_Color.jpg''] ''jpeg''])),
          ([''game'', ''assets'', ''external'', ''textures'', ''ambientcg'',
            ''Asphalt012_2K-JPG''],
           Dir),
          ([''game'', ''assets'', ''external'', ''textures'', ''ambientcg'',
            ''Asphalt012_2K-JPG'', ''Asphalt012_2K-JPG_Color.jpg''],
           File (Bytes ''jpeg'')),
          ([''game'', ''assets'', ''external'', ''manifest.json''],
           File
            (Json
              \<lparr>mf_version = 2, mf_generated_by = ''tools/fetch_assets.py'',
                 mf_generated_at = ''2026-01-01 00:00:00'',
                 mf_use_external_assets = False,
                 mf_variants =
                   [(''euro_buildings'', []), (''industrial_buildings'', []),
                    (''beach_shacks'', []), (''trees_conifer'', []),
                    (''trees_broadleaf'', []), (''trees_palm'', [])],
                 mf_textures =
                   [(''terrain_pavement'',
                     [(''albedo'',
                       ''res://assets/external/textures/ambientcg/Asphalt012_2K-JPG/Asphalt012_2K-JPG_Color.jpg'')])],
                 mf_packs_dir = ''res://assets/external/packs'',
                 mf_textures_dir = ''res://assets/external/textures/ambientcg'',
                 mf_status =
                   \<lparr>assets_downloaded = False, asset_count = 0,
                      warning =
                        ''No assets were successfully downloaded. Using fallback values.''\<rparr>\<rparr>))],
         requests =
           [''https://kenney.nl/assets/building-kit'',
            ''https://kenney.nl/assets/city-kit-suburban'',
            ''https://kenney.nl/assets/city-kit-industrial'',
            ''https://kenney.nl/assets/city-kit-roads'',
            ''https://kenney.nl/assets/nature-kit'',
            ''https://ambientcg.com/get?file=Concrete023_2K-JPG.zip'',
            ''https://ambientcg.com/get?file=MetalPlates006_2K-JPG.zip'',
            ''https://ambientcg.com/get?file=Bricks079_2K-JPG.zip'',
            ''https://ambientcg.com/get?file=WoodPlanks010_2K-JPG.zip'',
            ''https://ambientcg.com/get?file=RoofTiles005_2K-JPG.zip'',
            ''https://ambientcg.com/get?file=Sand002_2K-JPG.zip'',
            ''https://ambientcg.com/get?file=Grass004_2K-JPG.zip'']\<rparr>"

definition pack_cached_after :: world where
  "pack_cached_after =
     \<lparr>files =
         [([''game''], Dir), ([''game'', ''project.godot''], File (Bytes [])),
          ([''game'', ''assets''], Dir),
          ([''game'', ''assets'', ''ingest''], Dir),
          ([''game'', ''assets'', ''ingest'', ''kenney_building-kit.zip''],
           File (Zip [ZFile [''Models'', ''house.glb''] ''glb''])),
          ([''game'', ''assets'', ''ingest'', ''Grass004_2K-JPG.zip''],
           File (Zip [ZFile [''Grass004_2K-JPG_Color.jpg''] ''jpeg''])),
          ([''game'', ''assets'', ''external''], Dir),
          ([''game'', ''assets'', ''external'', ''packs''], Dir),
          ([''game'', ''assets'', ''external'', ''packs'',
            ''kenney_building-kit''],
           Dir),
          ([''game'', ''assets'', ''external'', ''packs'',
            ''kenney_building-kit'', ''Models''],
           Dir),
          ([''game'', ''assets'', ''external'', ''packs'',
            ''kenney_building-kit'', ''Models'', ''house.glb''],
           File (Bytes ''glb'')),
          ([''game'', ''assets'', ''external'', ''textures''], Dir),
          ([''game'', ''assets'', ''external'', ''textures'', ''ambientcg''],
           Dir),
          ([''game'', ''assets'', ''external'', ''textures'', ''ambientcg'',
            ''_zips''],
           Dir),
          ([''game'', ''assets'', ''external'', ''textures'', ''ambientcg'',
            ''_zips'', ''Grass004_2K-JPG.zip''],
           File (Zip [ZFile [''Grass004_2K-JPG_Color.jpg''] ''jpeg''])),
          ([''game'', ''assets'', ''external'', ''textures'', ''ambientcg'',
            ''Grass004_2K-JPG''],
           Dir),
          ([''game'', ''assets'', ''external'', ''textures'', ''ambientcg'',
            ''Grass004_2K-JPG'', ''Grass004_2K-JPG_Color.jpg''],
           File (Bytes ''jpeg'')),
          ([''game'', ''assets'', ''external'', ''manifest.json''],
           File
            (Json
              \<lparr>mf_version = 2, mf_generated_by = ''tools/fetch_assets.py'',
                 mf_generated_at = ''2026-01-01 00:00:00'',
                 mf_use_external_assets = True,
                 mf_variants =
                   [(''euro_buildings'',
                     [''res://assets/external/packs/kenney_building-kit/Models/house.glb'']),
                    (''industrial_buildings'', []),
                    (''beach_shacks'',
                     [''res://assets/external/packs/kenney_building-kit/Models/house.glb'']),
                    (''trees_conifer'', []), (''trees_broadleaf'', []),
                    (''trees_palm'', [])],
                 mf_textures =
                   [(''terrain_grass'',
                     [(''albedo'',
                       ''res://assets/external/textures/ambientcg/Grass004_2K-JPG/Grass004_2K-JPG_Color.jpg'')])],
                 mf_packs_dir = ''res://assets/external/packs'',
                 mf_textures_dir = ''res://assets/external/textures/ambientcg'',
                 mf_status =
                   \<lparr>assets_downloaded = True, asset_count = 1,
                      warning = ''Assets downloaded successfully.''\<rparr>\<rparr>))],
         requests =
           [''https://kenney.nl/assets/city-kit-suburban'',
            ''https://kenney.nl/assets/city-kit-industrial'',
            ''https://kenney.nl/assets/city-kit-roads'',
            ''https://kenney.nl/assets/nature-kit'',
            ''https://ambientcg.com/get?file=Concrete023_2K-JPG.zip'',
            ''https://ambientcg.com/get?file=Asphalt012_2K-JPG.zip'',
            ''https://ambientcg.com/get?file=MetalPlates006_2K-JPG.zip'',
            ''https://ambientcg.com/get?file=Bricks079_2K-JPG.zip'',
            ''https://ambientcg.com/get?file=WoodPlanks010_2K-JPG.zip'',
            ''https://ambientcg.com/get?file=RoofTiles005_2K-JPG.zip'',
            ''https://ambientcg.com/get?file=Sand002_2K-JPG.zip'']\<rparr>"

subsection \<open>Properties of the link picker\<close>

lemma re_match_Lit_notin:
  "c \<notin> set s \<Longrightarrow> re_match (map Lit pre @ Lit c # r) s = None"
proof (induction pre arbitrary: s)
  case Nil
  then show ?case by (cases s) auto
next
  case (Cons a pre)
  then show ?case by (cases s) auto
qed

lemma findall_from_no_match:
  "(\<And>t. set t \<subseteq> set s \<Longrightarrow> re_match r t = None) \<Longrightarrow> findall_from r 0 s = []"
  by (induction s) auto

lemma kenney_zip_re_needs_backslash:
  "backslash \<notin> set s \<Longrightarrow> re_match kenney_zip_re s = None"
  unfolding kenney_zip_re_def using re_match_Lit_notin [of backslash s "''https://kenney''"]
  by simp

lemma pick_best_no_backslash:
  "backslash \<notin> set html \<Longrightarrow> pick_best_kenney_zip_link html = None"
proof -
  assume h: "backslash \<notin> set html"
  have "findall_from kenney_zip_re 0 html = []"
    by (rule findall_from_no_match) (use h kenney_zip_re_needs_backslash in blast)
  then show ?thesis
    by (simp add: pick_best_kenney_zip_link_def findall_def)
qed

text \<open>
  C1. A page that holds a direct link of the shape \<open>https://kenney.nl/...zip\<close>, on the canonical
  path and with a \<open>kenney_\<close> name, should yield that link. The pattern asks for a backslash in
  front of \<open>nl\<close> and in front of \<open>zip\<close>, so the picker finds nothing on such a page.
\<close>

theorem C1_pick_best_misses_plain_link:
  "sublist ''https://kenney.nl/media/pages/assets/building-kit/kenney_building-kit.zip''
     ''<a href=\"https://kenney.nl/media/pages/assets/building-kit/kenney_building-kit.zip\">''
   \<and> pick_best_kenney_zip_link
     ''<a href=\"https://kenney.nl/media/pages/assets/building-kit/kenney_building-kit.zip\">'' = None"
  by (simp add: pick_best_no_backslash backslash_def sublist_Cons_right)

subsection \<open>The cache look-up of the Kenney fetcher\<close>

lemma kenney_lookup_ignores_case:
  "kenney_local_zip offline
     [([''game'', ''assets'', ''ingest''], Dir),
      ([''game'', ''assets'', ''ingest'', ''Kenney_City-Kit-Suburban.zip''], File (Zip []))]
     [''game'', ''assets'', ''ingest'']
     \<lparr>slug = ''kenney_city-kit-suburban'', page_url = ''https://kenney.nl/assets/city-kit-suburban''\<rparr>
   = Some [''game'', ''assets'', ''ingest'', ''Kenney_City-Kit-Suburban.zip'']"
  by code_simp

text \<open>
  C8. The look-up of \<open>fetch_kenney_pack\<close> should match a cached file whenever the normalised
  pack name is inside the normalised file name. For the cached file
  \<open>kenney-city-kit-suburban.zip\<close> and the pack \<open>kenney_city-kit-suburban\<close> the normalised
  names match, and \<open>find_local_zip\<close> finds the file, but the look-up of the fetcher, which
  only lower-cases, finds nothing.
\<close>

theorem C8_kenney_lookup_keeps_separators:
  "sublist (normalized ''kenney_city-kit-suburban'') (normalized ''kenney-city-kit-suburban.zip'')
   \<and> kenney_local_zip offline
        [([''game'', ''assets'', ''ingest''], Dir),
         ([''game'', ''assets'', ''ingest'', ''kenney-city-kit-suburban.zip''], File (Zip []))]
        [''game'', ''assets'', ''ingest'']
        \<lparr>slug = ''kenney_city-kit-suburban'', page_url = ''https://kenney.nl/assets/city-kit-suburban''\<rparr>
      = None
   \<and> find_local_zip offline
        [([''game'', ''assets'', ''ingest''], Dir),
         ([''game'', ''assets'', ''ingest'', ''kenney-city-kit-suburban.zip''], File (Zip []))]
        [''game''] ''kenney_city-kit-suburban''
      = Some [''game'', ''assets'', ''ingest'', ''kenney-city-kit-suburban.zip'']"
  by code_simp

subsection \<open>The flag \<open>--local-only\<close>\<close>

lemma fetch_everything_local_only:
  "fetch_everything pf (apply_all (a\<lparr>local_only := b\<rparr>)) r w = fetch_everything pf (apply_all a) r w"
  by (cases "all_assets a") (simp_all add: fetch_everything_def apply_all_def Let_def split_def)

lemma main_local_only_unread: "main pf (a\<lparr>local_only := b\<rparr>) w = main pf a w"
  by (simp add: main_def fetch_everything_local_only split: sum.split)

text \<open>
  C2. With \<open>--local-only\<close> the run should not touch the network. The flag is parsed and never
  read: on a project whose ingest cache is empty, the run with the flag set asks for the page
  of the first Kenney pack and makes thirteen requests in all.
\<close>

theorem C2_local_only_still_requests:
  "local_only (default_args\<lparr>local_only := True\<rparr>)
   \<and> kenney_local_zip offline bare_project [''game'', ''assets'', ''ingest'']
        \<lparr>slug = ''kenney_building-kit'', page_url = ''https://kenney.nl/assets/building-kit''\<rparr> = None
   \<and> requests (snd (main offline (default_args\<lparr>local_only := True\<rparr>)
        \<lparr>files = bare_project, requests = []\<rparr>))
       = [''https://kenney.nl/assets/building-kit'',
          ''https://kenney.nl/assets/city-kit-suburban'',
          ''https://kenney.nl/assets/city-kit-industrial'',
          ''https://kenney.nl/assets/city-kit-roads'',
          ''https://kenney.nl/assets/nature-kit'',
          ''https://ambientcg.com/get?file=Concrete023_2K-JPG.zip'',
          ''https://ambientcg.com/get?file=Asphalt012_2K-JPG.zip'',
          ''https://ambientcg.com/get?file=MetalPlates006_2K-JPG.zip'',
          ''https://ambientcg.com/get?file=Bricks079_2K-JPG.zip'',
          ''https://ambientcg.com/get?file=WoodPlanks010_2K-JPG.zip'',
          ''https://ambientcg.com/get?file=RoofTiles005_2K-JPG.zip'',
          ''https://ambientcg.com/get?file=Sand002_2K-JPG.zip'',
          ''https://ambientcg.com/get?file=Grass004_2K-JPG.zip'']"
  by code_simp

subsection \<open>The manifest without packs\<close>

lemma map_of_write_file:
  "write_file fs p c = Inr fs' \<Longrightarrow> map_of fs' = (map_of fs)(p \<mapsto> File c)"
  by (auto simp: write_file_def update_conv' split: if_splits)

text \<open>
  C4. When the list of pack directories is empty, the manifest that \<open>write_manifest\<close> writes
  maps each of the six pool keys to the empty list, whatever classification it was given;
  \<open>status.assets_downloaded\<close> is false and the warning is not empty.
\<close>

theorem C4_no_packs_empty_pools:
  assumes "write_manifest pf project_root packs_dir textures_dir variants [] w = (Inr mp, w')"
  shows "\<exists>m. map_of (files w') mp = Some (File (Json m))
           \<and> mf_variants m =
               [(''euro_buildings'', []), (''industrial_buildings'', []), (''beach_shacks'', []),
                (''trees_conifer'', []), (''trees_broadleaf'', []), (''trees_palm'', [])]
           \<and> \<not> assets_downloaded (mf_status m) \<and> warning (mf_status m) \<noteq> []"
  using assms
  by (auto simp: write_manifest_def Let_def empty_variants_def split: sum.splits
           dest!: map_of_write_file)

theorem C4_no_packs_empty_pools_witness:
  "write_manifest offline [''game''] [''game'', ''assets'', ''external'', ''packs'']
       [''game'', ''assets'', ''external'', ''textures'', ''ambientcg'']
       [(''euro_buildings'', [''res://assets/external/packs/kenney_building-kit/house.glb''])] []
       \<lparr>files = bare_project, requests = []\<rparr>
     = (Inr [''game'', ''assets'', ''external'', ''manifest.json''],
        snd (write_manifest offline [''game''] [''game'', ''assets'', ''external'', ''packs'']
          [''game'', ''assets'', ''external'', ''textures'', ''ambientcg'']
          [(''euro_buildings'', [''res://assets/external/packs/kenney_building-kit/house.glb''])] []
          \<lparr>files = bare_project, requests = []\<rparr>))
   \<and> (\<exists>m. map_of (files (snd (write_manifest offline [''game'']
               [''game'', ''assets'', ''external'', ''packs'']
               [''game'', ''assets'', ''external'', ''textures'', ''ambientcg'']
               [(''euro_buildings'', [''res://assets/external/packs/kenney_building-kit/house.glb''])] []
               \<lparr>files = bare_project, requests = []\<rparr>)))
             [''game'', ''assets'', ''external'', ''manifest.json''] = Some (File (Json m))
           \<and> mf_variants m =
               [(''euro_buildings'', []), (''industrial_buildings'', []), (''beach_shacks'', []),
                (''trees_conifer'', []), (''trees_broadleaf'', []), (''trees_palm'', [])]
           \<and> \<not> assets_downloaded (mf_status m) \<and> warning (mf_status m) \<noteq> [])"
proof -
  have "fst (write_manifest offline [''game''] [''game'', ''assets'', ''external'', ''packs'']
       [''game'', ''assets'', ''external'', ''textures'', ''ambientcg'']
       [(''euro_buildings'', [''res://assets/external/packs/kenney_building-kit/house.glb''])] []
       \<lparr>files = bare_project, requests = []\<rparr>)
     = Inr [''game'', ''assets'', ''external'', ''manifest.json'']"
    by code_simp
  then have run: "write_manifest offline [''game''] [''game'', ''assets'', ''external'', ''packs'']
       [''game'', ''assets'', ''external'', ''textures'', ''ambientcg'']
       [(''euro_buildings'', [''res://assets/external/packs/kenney_building-kit/house.glb''])] []
       \<lparr>files = bare_project, requests = []\<rparr>
     = (Inr [''game'', ''assets'', ''external'', ''manifest.json''],
        snd (write_manifest offline [''game''] [''game'', ''assets'', ''external'', ''packs'']
          [''game'', ''assets'', ''external'', ''textures'', ''ambientcg'']
          [(''euro_buildings'', [''res://assets/external/packs/kenney_building-kit/house.glb''])] []
          \<lparr>files = bare_project, requests = []\<rparr>))"
    by (metis prod.collapse)
  show ?thesis
    using run C4_no_packs_empty_pools [OF run] by blast
qed

subsection \<open>One damaged texture archive\<close>

text \<open>
  C7. A failure on one texture should not keep the other textures of the run from being
  processed. With a damaged archive of the first base texture in the ingest cache,
  \<open>fetch_ambientcg_textures\<close> leaves with \<open>BadZipFile\<close> and the valid archive of the second
  texture, which the same run extracts when the damaged archive is not there, stays unextracted;
  the manifest is still written.
\<close>

theorem C7_damaged_texture_skips_the_rest:
  "fst (fetch_ambientcg_textures offline AMBIENTCG_TEXTURES game_textures [''game'']
          \<lparr>files = broken_texture, requests = []\<rparr>) = Inl BadZipFile
   \<and> main offline default_args \<lparr>files = broken_texture, requests = []\<rparr>
       = (Inr 0, broken_texture_after)
   \<and> is_file (files broken_texture_after) [''game'', ''assets'', ''external'', ''manifest.json'']
   \<and> \<not> exists (files broken_texture_after) (game_textures @ [''Asphalt012_2K-JPG''])
   \<and> main offline default_args \<lparr>files = asphalt_cached, requests = []\<rparr>
       = (Inr 0, asphalt_cached_after)
   \<and> is_file (files asphalt_cached_after)
        (game_textures @ [''Asphalt012_2K-JPG'', ''Asphalt012_2K-JPG_Color.jpg''])"
  by code_simp

subsection \<open>Re-extraction leaves nothing stale\<close>

lemma map_of_filter_key:
  "map_of (filter (\<lambda>(k, v). P k) xs) k = (if P k then map_of xs k else None)"
  by (induction xs) auto

lemma wf_fs_ancestor:
  "wf_fs fs \<Longrightarrow> (q, n) \<in> set fs \<Longrightarrow> strict_prefix p q \<Longrightarrow> is_dir fs p"
proof (induction q arbitrary: n rule: rev_induct)
  case Nil
  then show ?case by simp
next
  case (snoc x q')
  from snoc.prems(1,2) have d: "is_dir fs q'"
    by (auto simp: wf_fs_def list_all_iff parent_def)
  from snoc.prems(3) have "prefix p q'"
    by (auto simp: strict_prefix_def)
  show ?case
  proof (cases "p = q'")
    case True
    with d show ?thesis by simp
  next
    case False
    with \<open>prefix p q'\<close> have sp: "strict_prefix p q'" by (simp add: strict_prefix_def)
    then have "q' \<noteq> []" by auto
    with d have "map_of fs q' = Some Dir" by (simp add: is_dir_def)
    then have "(q', Dir) \<in> set fs" by (rule map_of_SomeD)
    from snoc.IH [OF snoc.prems(1) this sp] show ?thesis .
  qed
qed

lemma mkdirs_entries:
  "mkdirs fs b cs = Inr fs' \<Longrightarrow> map_of fs' q = Some n \<Longrightarrow>
   map_of fs q = Some n \<or> (n = Dir \<and> prefix q (b @ cs))"
proof (induction cs arbitrary: fs b)
  case Nil
  then show ?case by simp
next
  case (Cons c cs)
  show ?case
  proof (cases "map_of fs (b @ [c])")
    case None
    with Cons.prems(1) have "mkdirs (fs @ [(b @ [c], Dir)]) (b @ [c]) cs = Inr fs'" by simp
    from Cons.IH [OF this Cons.prems(2)]
    show ?thesis
      by (auto simp: map_add_def split: option.splits if_splits)
  next
    case (Some nd)
    with Cons.prems(1) have "nd = Dir \<and> mkdirs fs (b @ [c]) cs = Inr fs'"
      by (cases nd) (auto split: if_splits)
    with Cons.IH [of fs "b @ [c]"] Cons.prems(2) show ?thesis by auto
  qed
qed

lemma mkdirs_keeps:
  "mkdirs fs b cs = Inr fs' \<Longrightarrow> map_of fs q = Some n \<Longrightarrow> map_of fs' q = Some n"
proof (induction cs arbitrary: fs b)
  case Nil
  then show ?case by simp
next
  case (Cons c cs)
  show ?case
  proof (cases "map_of fs (b @ [c])")
    case None
    with Cons.prems(1) have m: "mkdirs (fs @ [(b @ [c], Dir)]) (b @ [c]) cs = Inr fs'" by simp
    have "map_of (fs @ [(b @ [c], Dir)]) q = Some n"
      using Cons.prems(2) by (simp add: map_add_def)
    from Cons.IH [OF m this] show ?thesis .
  next
    case (Some nd)
    with Cons.prems(1) have "mkdirs fs (b @ [c]) cs = Inr fs'"
      by (cases nd) (auto split: if_splits)
    from Cons.IH [OF this Cons.prems(2)] show ?thesis .
  qed
qed

lemma mkdirs_wf:
  "mkdirs fs b cs = Inr fs' \<Longrightarrow> wf_fs fs \<Longrightarrow> is_dir fs b \<Longrightarrow> wf_fs fs'"
proof (induction cs arbitrary: fs b)
  case Nil
  then show ?case by simp
next
  case (Cons c cs)
  show ?case
  proof (cases "map_of fs (b @ [c])")
    case None
    with Cons.prems(1) have m: "mkdirs (fs @ [(b @ [c], Dir)]) (b @ [c]) cs = Inr fs'" by simp
    have mono: "is_dir (fs @ [(b @ [c], Dir)]) p" if "is_dir fs p" for p
      using that by (auto simp: is_dir_def map_add_def)
    have wf': "wf_fs (fs @ [(b @ [c], Dir)])"
      using Cons.prems(2,3) mono by (auto simp: wf_fs_def list_all_iff parent_def)
    have d: "is_dir (fs @ [(b @ [c], Dir)]) (b @ [c])"
      using None by (simp add: is_dir_def map_add_def)
    from Cons.IH [OF m wf' d] show ?thesis .
  next
    case (Some nd)
    with Cons.prems(1) have "nd = Dir" and m: "mkdirs fs (b @ [c]) cs = Inr fs'"
      by (cases nd; auto split: if_splits)+
    with Some have "is_dir fs (b @ [c])" by (simp add: is_dir_def)
    from Cons.IH [OF m Cons.prems(2) this] show ?thesis .
  qed
qed

lemma mkdir_p_wf: "mkdir_p fs p = Inr fs' \<Longrightarrow> wf_fs fs \<Longrightarrow> wf_fs fs'"
  unfolding mkdir_p_def by (erule mkdirs_wf) (simp_all add: is_dir_def)

lemma mkdir_p_entries:
  "mkdir_p fs p = Inr fs' \<Longrightarrow> map_of fs' q = Some n \<Longrightarrow>
   map_of fs q = Some n \<or> (n = Dir \<and> prefix q p)"
  unfolding mkdir_p_def using mkdirs_entries [of fs "[]" p fs' q n] by simp

lemma mkdir_p_keeps:
  "mkdir_p fs p = Inr fs' \<Longrightarrow> map_of fs q = Some n \<Longrightarrow> map_of fs' q = Some n"
  unfolding mkdir_p_def by (rule mkdirs_keeps)


lemma write_file_wf:
  assumes "write_file fs p c = Inr fs'" "wf_fs fs"
  shows "wf_fs fs'"
proof -
  from assms(1) have fs': "fs' = AList.update p (File c) fs"
    and nd: "\<not> is_dir fs p" and pd: "is_dir fs (parent p)"
    by (auto simp: write_file_def split: if_splits)
  from nd have pne: "p \<noteq> []" by (auto simp: is_dir_def)
  have dir_eq: "is_dir fs' x = is_dir fs x" for x
    using nd by (auto simp: fs' is_dir_def update_conv')
  have sub: "set fs' \<subseteq> insert (p, File c) (set fs)"
    unfolding fs' by (induction fs) auto
  show ?thesis
    unfolding wf_fs_def list_all_iff
  proof (rule ballI)
    fix e assume "e \<in> set fs'"
    with sub have "e = (p, File c) \<or> e \<in> set fs" by auto
    then show "case e of (p, n) \<Rightarrow> p \<noteq> [] \<and> is_dir fs' (parent p)"
      using assms(2) pne pd by (auto simp: dir_eq wf_fs_def list_all_iff)
  qed
qed

lemma extract_member_entries:
  assumes "extract_member fs dst rel dat = (r, fs')" "map_of fs' q = Some n"
  shows "map_of fs q = Some n \<or> (n = Dir \<and> prefix q (parent (dst @ rel)))
         \<or> (n = File (Bytes dat) \<and> q = dst @ rel)"
proof (cases "mkdir_p fs (parent (dst @ rel))")
  case (Inl e)
  with assms show ?thesis by (simp add: extract_member_def)
next
  case (Inr fs1)
  note mk = this
  show ?thesis
  proof (cases "write_file fs1 (dst @ rel) (Bytes dat)")
    case (Inl e)
    with mk assms have "map_of fs1 q = Some n" by (simp add: extract_member_def)
    from mkdir_p_entries [OF mk this] show ?thesis by auto
  next
    case (Inr fs2)
    with mk assms have "fs' = fs2" by (simp add: extract_member_def)
    with map_of_write_file [OF Inr] assms(2)
    have "(q = dst @ rel \<and> n = File (Bytes dat)) \<or> map_of fs1 q = Some n"
      by (auto split: if_splits)
    with mkdir_p_entries [OF mk] show ?thesis by auto
  qed
qed

lemma extractall_entries:
  "extractall fs dst ms = (r, fs') \<Longrightarrow> map_of fs' q = Some n \<Longrightarrow>
   map_of fs q = Some n \<or> (\<exists>m\<in>set ms. created dst m q n)"
proof (induction fs dst ms arbitrary: r fs' rule: extractall.induct)
  case (1 fs dst)
  then show ?case by simp
next
  case (2 fs dst rel ms)
  show ?case
  proof (cases "mkdir_p fs (dst @ rel)")
    case (Inl e)
    with "2.prems" show ?thesis by simp
  next
    case (Inr fs1)
    with "2.prems" have "extractall fs1 dst ms = (r, fs')" by simp
    from "2.IH" [OF Inr this "2.prems"(2)] mkdir_p_entries [OF Inr, of q n]
    show ?thesis by auto
  qed
next
  case (3 fs dst rel dat ms)
  obtain r1 fs1 where em: "extract_member fs dst rel dat = (r1, fs1)" by force
  show ?case
  proof (cases r1)
    case None
    with em "3.prems" have "extractall fs1 dst ms = (r, fs')" by simp
    from "3.IH" [OF em [symmetric] None this "3.prems"(2)] extract_member_entries [OF em, of q n]
    show ?thesis by auto
  next
    case (Some e)
    with em "3.prems" have "fs' = fs1" by simp
    with extract_member_entries [OF em, of q n] "3.prems"(2) show ?thesis by auto
  qed
next
  case (4 fs dst rel dat ms)
  obtain r1 fs1 where em: "extract_member fs dst rel dat = (r1, fs1)" by force
  with "4.prems" have "fs' = fs1" by (cases r1) auto
  with extract_member_entries [OF em, of q n] "4.prems"(2) show ?case by auto
qed

lemma extract_zip_entries:
  assumes "extract_zip fs zip_path dst = (r, fs')" "map_of fs' q = Some n"
  shows "map_of fs q = Some n \<or> (n = Dir \<and> prefix q dst)
         \<or> (\<exists>ms. map_of fs zip_path = Some (File (Zip ms)) \<and> (\<exists>m\<in>set ms. created dst m q n))"
proof (cases "mkdir_p fs dst")
  case (Inl e)
  with assms show ?thesis by (simp add: extract_zip_def)
next
  case (Inr fs1)
  note mk = this
  show ?thesis
  proof (cases "\<exists>ms. map_of fs1 zip_path = Some (File (Zip ms))")
    case True
    then obtain ms where z: "map_of fs1 zip_path = Some (File (Zip ms))" by blast
    with mk assms have ex: "extractall fs1 dst ms = (r, fs')" by (simp add: extract_zip_def)
    from mkdir_p_entries [OF mk z] have z0: "map_of fs zip_path = Some (File (Zip ms))" by simp
    from extractall_entries [OF ex assms(2)] mkdir_p_entries [OF mk, of q n] z0
    show ?thesis by auto
  next
    case False
    with mk assms have "fs' = fs1"
      by (auto simp: extract_zip_def split: option.splits node.splits content.splits)
    with mkdir_p_entries [OF mk, of q n] assms(2) show ?thesis by auto
  qed
qed

text \<open>After the removal step nothing is left at or below the directory.\<close>

lemma removed_dir_is_empty:
  assumes wf: "wf_fs fs" and nf: "\<not> is_file fs out" and ne: "out \<noteq> []"
    and step: "(if exists fs out then rmtree fs out else Inr fs) = Inr fs'"
  shows "(prefix out q \<longrightarrow> map_of fs' q = None) \<and> (map_of fs' q = Some n \<longrightarrow> map_of fs q = Some n)"
proof (cases "map_of fs out")
  case None
  with step ne have eq: "fs' = fs" by (simp add: exists_def)
  have "map_of fs q = None" if pre: "prefix out q"
  proof (rule ccontr)
    assume "map_of fs q \<noteq> None"
    then obtain nd where "map_of fs q = Some nd" by auto
    then have mem: "(q, nd) \<in> set fs" by (rule map_of_SomeD)
    from None \<open>map_of fs q = Some nd\<close> have "q \<noteq> out" by auto
    with pre have "strict_prefix out q" by (simp add: strict_prefix_def)
    from wf_fs_ancestor [OF wf mem this] ne None show False by (simp add: is_dir_def)
  qed
  with eq show ?thesis by simp
next
  case (Some nd)
  with nf have "nd = Dir" by (cases nd) (auto simp: is_file_def)
  with Some step have "fs' = filter (\<lambda>(k, v). \<not> prefix out k) fs"
    by (simp add: exists_def rmtree_def)
  then show ?thesis by (simp add: map_of_filter_key)
qed


lemma removal_step_succeeds:
  assumes "\<not> is_file fs out" "out \<noteq> []"
  shows "\<exists>fs'. (if exists fs out then rmtree fs out else Inr fs) = Inr fs'"
proof (cases "map_of fs out")
  case None
  with assms show ?thesis by (simp add: exists_def)
next
  case (Some nd)
  with assms have "nd = Dir" by (cases nd) (auto simp: is_file_def)
  with Some show ?thesis by (simp add: exists_def rmtree_def)
qed

lemma kenney_extract_fresh:
  assumes wf: "wf_fs (files w)"
    and mk: "mkdir_p (files w) packs_dir = Inr fs1"
    and nf: "\<not> is_file fs1 (packs_dir @ [slug pack])"
    and run: "kenney_extract pack packs_dir local_zip w = (r, w')"
    and pre: "prefix (packs_dir @ [slug pack]) q"
    and ent: "map_of (files w') q = Some n"
  shows "(q = packs_dir @ [slug pack] \<and> n = Dir)
         \<or> (\<exists>ms. map_of (files w) local_zip = Some (File (Zip ms))
                \<and> (\<exists>m\<in>set ms. created (packs_dir @ [slug pack]) m q n))"
proof -
  let ?out = "packs_dir @ [slug pack]"
  have wf1: "wf_fs fs1" using mk wf by (rule mkdir_p_wf)
  from removal_step_succeeds [OF nf] obtain fs2
    where step: "(if exists fs1 ?out then rmtree fs1 ?out else Inr fs1) = Inr fs2" by auto
  have gone: "map_of fs2 q = None"
    and kept: "\<And>z nd. map_of fs2 z = Some nd \<Longrightarrow> map_of fs1 z = Some nd"
    using removed_dir_is_empty [OF wf1 nf _ step] pre by auto
  obtain r3 fs3 where ex: "extract_zip fs2 local_zip ?out = (r3, fs3)" by force
  from run mk step ex have w': "files w' = fs3"
    by (cases r3) (auto simp: kenney_extract_def Let_def)
  from extract_zip_entries [OF ex, of q n] ent w' gone
  consider "n = Dir" "prefix q ?out"
    | ms where "map_of fs2 local_zip = Some (File (Zip ms))" "\<exists>m\<in>set ms. created ?out m q n"
    by auto
  then show ?thesis
  proof cases
    case 1
    with pre have "q = ?out" by (simp add: prefix_order.antisym)
    with 1 show ?thesis by simp
  next
    case 2
    from kept [OF 2(1)] mkdir_p_entries [OF mk]
    have "map_of (files w) local_zip = Some (File (Zip ms))" by auto
    with 2(2) show ?thesis by blast
  qed
qed

lemma copy2_entries:
  assumes "copy2 fs src dst = Inr fs'" "map_of fs' dst = Some (File c)" "dst \<noteq> []"
  shows "map_of fs src = Some (File c)"
proof -
  from assms(1) obtain c0 where src: "map_of fs src = Some (File c0)"
    by (auto simp: copy2_def split: option.splits node.splits)
  let ?target = "if is_dir fs dst then dst @ [name_of src] else dst"
  from assms(1) src have wr: "write_file fs ?target c0 = Inr fs'"
    by (auto simp: copy2_def Let_def split: if_splits)
  show ?thesis
  proof (cases "is_dir fs dst")
    case True
    with map_of_write_file [OF wr] assms(2) have "map_of fs dst = Some (File c)"
      by (auto split: if_splits)
    with True assms(3) show ?thesis by (auto simp: is_dir_def)
  next
    case False
    with map_of_write_file [OF wr] assms(2) src show ?thesis by auto
  qed
qed

lemma copy2_wf: "copy2 fs src dst = Inr fs' \<Longrightarrow> wf_fs fs \<Longrightarrow> wf_fs fs'"
  by (auto simp: copy2_def Let_def split: option.splits node.splits if_splits
           elim: write_file_wf)

lemma polyhaven_extract_fresh:
  assumes wf: "wf_fs (files w)"
    and mk: "mkdir_p (files w) packs_dir = Inr fs1"
    and cp: "copy2 fs1 local_zip (packs_dir @ [''polyhaven_'' @ ph_file_name asset]) = Inr fs2"
    and nf: "\<not> is_file fs2 (packs_dir @ [''polyhaven_'' @ remove_all ''.zip'' (ph_file_name asset)])"
    and run: "polyhaven_extract asset packs_dir local_zip w = (r, w')"
    and pre: "prefix (packs_dir @ [''polyhaven_'' @ remove_all ''.zip'' (ph_file_name asset)]) q"
    and ent: "map_of (files w') q = Some n"
  shows "(q = packs_dir @ [''polyhaven_'' @ remove_all ''.zip'' (ph_file_name asset)] \<and> n = Dir)
         \<or> (\<exists>ms. map_of (files w) local_zip = Some (File (Zip ms))
                \<and> (\<exists>m\<in>set ms.
                      created (packs_dir @ [''polyhaven_'' @ remove_all ''.zip'' (ph_file_name asset)])
                        m q n))"
proof -
  let ?out = "packs_dir @ [''polyhaven_'' @ remove_all ''.zip'' (ph_file_name asset)]"
  let ?zip = "packs_dir @ [''polyhaven_'' @ ph_file_name asset]"
  have wf2: "wf_fs fs2" using cp mkdir_p_wf [OF mk wf] by (rule copy2_wf)
  from removal_step_succeeds [OF nf] obtain fs3
    where step: "(if exists fs2 ?out then rmtree fs2 ?out else Inr fs2) = Inr fs3" by auto
  have gone: "map_of fs3 q = None"
    and kept: "\<And>z nd. map_of fs3 z = Some nd \<Longrightarrow> map_of fs2 z = Some nd"
    using removed_dir_is_empty [OF wf2 nf _ step] pre by auto
  obtain r4 fs4 where ex: "extract_zip fs3 ?zip ?out = (r4, fs4)" by force
  have "polyhaven_extract asset packs_dir local_zip w =
          (case r4 of Some e \<Rightarrow> (Inr None, w\<lparr>files := fs4\<rparr>)
                    | None \<Rightarrow> (Inr (Some ?out), w\<lparr>files := fs4\<rparr>))"
    by (simp only: polyhaven_extract_def Let_def mk cp step ex sum.case prod.case)
  with run have w': "files w' = fs4"
    by (cases r4) auto
  from extract_zip_entries [OF ex, of q n] ent w' gone
  consider "n = Dir" "prefix q ?out"
    | ms where "map_of fs3 ?zip = Some (File (Zip ms))" "\<exists>m\<in>set ms. created ?out m q n"
    by auto
  then show ?thesis
  proof cases
    case 1
    with pre have "q = ?out" by (simp add: prefix_order.antisym)
    with 1 show ?thesis by simp
  next
    case 2
    from copy2_entries [OF cp kept [OF 2(1)]] mkdir_p_entries [OF mk]
    have "map_of (files w) local_zip = Some (File (Zip ms))" by auto
    with 2(2) show ?thesis by blast
  qed
qed


text \<open>
  C10. When a re-run reaches the extraction of a pack (the packs directory can be made, and for
  a Poly Haven asset the archive copied, and no plain file is in the place of the pack
  directory), the old pack directory is removed first. So every entry at or below the pack
  directory afterwards is the directory itself or was created from a member of the archive
  that this run extracts, also when the extraction fails half-way: no file of an earlier
  extraction is left. The first half is \<open>fetch_kenney_pack\<close>, the second
  \<open>fetch_polyhaven_asset\<close>.
\<close>

theorem C10_no_stale_pack_content:
  "(wf_fs (files w) \<and> mkdir_p (files w) packs_dir = Inr fs1
      \<and> \<not> is_file fs1 (packs_dir @ [slug pack])
      \<and> kenney_extract pack packs_dir local_zip w = (r, w')
      \<and> prefix (packs_dir @ [slug pack]) q \<and> map_of (files w') q = Some n
    \<longrightarrow> (q = packs_dir @ [slug pack] \<and> n = Dir)
        \<or> (\<exists>ms. map_of (files w) local_zip = Some (File (Zip ms))
               \<and> (\<exists>m\<in>set ms. created (packs_dir @ [slug pack]) m q n)))
   \<and> (wf_fs (files v) \<and> mkdir_p (files v) packs_dir = Inr gs1
      \<and> copy2 gs1 zip_file (packs_dir @ [''polyhaven_'' @ ph_file_name asset]) = Inr gs2
      \<and> \<not> is_file gs2 (packs_dir @ [''polyhaven_'' @ remove_all ''.zip'' (ph_file_name asset)])
      \<and> polyhaven_extract asset packs_dir zip_file v = (s, v')
      \<and> prefix (packs_dir @ [''polyhaven_'' @ remove_all ''.zip'' (ph_file_name asset)]) p
      \<and> map_of (files v') p = Some k
    \<longrightarrow> (p = packs_dir @ [''polyhaven_'' @ remove_all ''.zip'' (ph_file_name asset)] \<and> k = Dir)
        \<or> (\<exists>ms. map_of (files v) zip_file = Some (File (Zip ms))
               \<and> (\<exists>m\<in>set ms.
                     created (packs_dir @ [''polyhaven_'' @ remove_all ''.zip'' (ph_file_name asset)])
                       m p k)))"
  using kenney_extract_fresh [of w packs_dir fs1 pack local_zip r w' q n]
    polyhaven_extract_fresh [of v packs_dir gs1 zip_file asset gs2 s v' p k]
  by blast


theorem C10_no_stale_pack_content_witness:
  "(wf_fs (files stale_pack_world)
      \<and> mkdir_p (files stale_pack_world) game_packs = Inr stale_pack
      \<and> \<not> is_file stale_pack (game_packs @ [slug building_kit_pack])
      \<and> kenney_extract building_kit_pack game_packs
            [''game'', ''assets'', ''ingest'', ''kenney_building-kit.zip''] stale_pack_world
          = (Inr (game_packs @ [''kenney_building-kit'']),
             snd (kenney_extract building_kit_pack game_packs
                    [''game'', ''assets'', ''ingest'', ''kenney_building-kit.zip''] stale_pack_world))
      \<and> prefix (game_packs @ [slug building_kit_pack])
            (game_packs @ [''kenney_building-kit'', ''Models'', ''house-new.glb''])
      \<and> map_of (files (snd (kenney_extract building_kit_pack game_packs
                    [''game'', ''assets'', ''ingest'', ''kenney_building-kit.zip''] stale_pack_world)))
            (game_packs @ [''kenney_building-kit'', ''Models'', ''house-new.glb''])
          = Some (File (Bytes ''new'')))
   \<and> (\<exists>ms. map_of (files stale_pack_world)
               [''game'', ''assets'', ''ingest'', ''kenney_building-kit.zip''] = Some (File (Zip ms))
          \<and> (\<exists>m\<in>set ms.
                created (game_packs @ [slug building_kit_pack]) m
                  (game_packs @ [''kenney_building-kit'', ''Models'', ''house-new.glb''])
                  (File (Bytes ''new''))))
   \<and> map_of (files (snd (kenney_extract building_kit_pack game_packs
                    [''game'', ''assets'', ''ingest'', ''kenney_building-kit.zip''] stale_pack_world)))
        (game_packs @ [''kenney_building-kit'', ''house-old.glb'']) = None
   \<and> (wf_fs (files stale_asset_world)
      \<and> mkdir_p (files stale_asset_world) game_packs = Inr stale_asset
      \<and> copy2 stale_asset [''game'', ''assets'', ''ingest'', ''hangar_01.zip'']
            (game_packs @ [''polyhaven_'' @ ph_file_name hangar_asset])
          = Inr (stale_asset @
                 [(game_packs @ [''polyhaven_hangar_01.zip''],
                   File (Zip [ZFile [''hangar-new.glb''] ''new'']))])
      \<and> \<not> is_file (stale_asset @
                 [(game_packs @ [''polyhaven_hangar_01.zip''],
                   File (Zip [ZFile [''hangar-new.glb''] ''new'']))])
            (game_packs @ [''polyhaven_'' @ remove_all ''.zip'' (ph_file_name hangar_asset)])
      \<and> polyhaven_extract hangar_asset game_packs
            [''game'', ''assets'', ''ingest'', ''hangar_01.zip''] stale_asset_world
          = (Inr (Some (game_packs @ [''polyhaven_hangar_01''])),
             snd (polyhaven_extract hangar_asset game_packs
                    [''game'', ''assets'', ''ingest'', ''hangar_01.zip''] stale_asset_world))
      \<and> prefix (game_packs @ [''polyhaven_'' @ remove_all ''.zip'' (ph_file_name hangar_asset)])
            (game_packs @ [''polyhaven_hangar_01'', ''hangar-new.glb''])
      \<and> map_of (files (snd (polyhaven_extract hangar_asset game_packs
                    [''game'', ''assets'', ''ingest'', ''hangar_01.zip''] stale_asset_world)))
            (game_packs @ [''polyhaven_hangar_01'', ''hangar-new.glb''])
          = Some (File (Bytes ''new'')))
   \<and> (\<exists>ms. map_of (files stale_asset_world)
               [''game'', ''assets'', ''ingest'', ''hangar_01.zip''] = Some (File (Zip ms))
          \<and> (\<exists>m\<in>set ms.
                created (game_packs @ [''polyhaven_'' @ remove_all ''.zip'' (ph_file_name hangar_asset)]) m
                  (game_packs @ [''polyhaven_hangar_01'', ''hangar-new.glb''])
                  (File (Bytes ''new''))))
   \<and> map_of (files (snd (polyhaven_extract hangar_asset game_packs
                    [''game'', ''assets'', ''ingest'', ''hangar_01.zip''] stale_asset_world)))
        (game_packs @ [''polyhaven_hangar_01'', ''hangar-old.glb'']) = None"
  (is "?HK \<and> ?CK \<and> ?OK \<and> ?HP \<and> ?CP \<and> ?OP")
proof -
  have hk: ?HK by code_simp
  have hp: ?HP by code_simp
  have ok: ?OK by code_simp
  have op: ?OP by code_simp
  have "(?HK \<longrightarrow> False \<or> ?CK) \<and> (?HP \<longrightarrow> False \<or> ?CP)"
    using C10_no_stale_pack_content
      [of stale_pack_world game_packs stale_pack building_kit_pack
          "[''game'', ''assets'', ''ingest'', ''kenney_building-kit.zip'']"
          "Inr (game_packs @ [''kenney_building-kit''])"
          "snd (kenney_extract building_kit_pack game_packs
                  [''game'', ''assets'', ''ingest'', ''kenney_building-kit.zip''] stale_pack_world)"
          "game_packs @ [''kenney_building-kit'', ''Models'', ''house-new.glb'']"
          "File (Bytes ''new'')"
          stale_asset_world stale_asset
          "[''game'', ''assets'', ''ingest'', ''hangar_01.zip'']"
          hangar_asset
          "stale_asset @
             [(game_packs @ [''polyhaven_hangar_01.zip''],
               File (Zip [ZFile [''hangar-new.glb''] ''new'']))]"
          "Inr (Some (game_packs @ [''polyhaven_hangar_01'']))"
          "snd (polyhaven_extract hangar_asset game_packs
                  [''game'', ''assets'', ''ingest'', ''hangar_01.zip''] stale_asset_world)"
          "game_packs @ [''polyhaven_hangar_01'', ''hangar-new.glb'']"
          "File (Bytes ''new'')"]
    by blast
  with hk hp ok op show ?thesis by blast
qed

subsection \<open>A run with one cached pack\<close>

lemma main_pack_cached:
  "main offline default_args pack_cached_world = (Inr 0, pack_cached_after)"
  by code_simp

subsection \<open>Paths in the manifest\<close>

lemma rel_res_path_is_res_path: "rel_res_path r p = Inr s \<Longrightarrow> res_path r s"
proof -
  assume eq: "rel_res_path r p = Inr s"
  then have "prefix r p" by (simp add: rel_res_path_def split: if_splits)
  then show ?thesis using eq by (rule res_pathI)
qed

lemma res_path_begins: "res_path r s \<Longrightarrow> prefix ''res://'' s"
  by (auto elim!: res_path.cases simp: rel_res_path_def Let_def split: if_splits)

lemma rp_res_paths: "rp r xs = Inr ss \<Longrightarrow> \<forall>s\<in>set ss. res_path r s"
proof (induction xs arbitrary: ss)
  case Nil
  then show ?case by simp
next
  case (Cons p ps)
  then show ?case
    by (auto split: sum.splits dest: rel_res_path_is_res_path)
qed

lemma pools_res_paths:
  "pools r specs = Inr kvs \<Longrightarrow> \<forall>(k, xs)\<in>set kvs. \<forall>s\<in>set xs. res_path r s"
proof (induction r specs arbitrary: kvs rule: pools.induct)
  case (1 r)
  then show ?case by simp
next
  case (2 r key xs cap rest)
  from "2.prems" obtain ss kvs' where rp: "rp r xs = Inr ss" and rest: "pools r rest = Inr kvs'"
    and kvs: "kvs = (key, take cap ss) # kvs'"
    by (auto split: sum.splits)
  from rp_res_paths [OF rp] have "\<forall>s\<in>set (take cap ss). res_path r s"
    by (meson in_set_takeD)
  with "2.IH" [OF rp rest] kvs show ?case by simp
qed

lemma texture_set_of_res_paths:
  "texture_set_of pf fs r d b chans = Inr ts \<Longrightarrow> \<forall>(c, s)\<in>set ts. res_path r s"
proof (induction chans arbitrary: ts)
  case Nil
  then show ?case by simp
next
  case (Cons ch chans)
  obtain chan ending where ch: "ch = (chan, ending)" by (cases ch)
  show ?case
  proof (cases "glob pf fs d (b @ ''*'' @ ending)")
    case Nil
    with Cons ch show ?thesis by simp
  next
    case (Cons f more)
    with Cons.prems ch obtain s ts' where "rel_res_path r f = Inr s"
      "texture_set_of pf fs r d b chans = Inr ts'" "ts = (chan, s) # ts'"
      by (auto split: sum.splits)
    with Cons.IH [of ts'] rel_res_path_is_res_path [of r f s] show ?thesis by simp
  qed
qed

lemma texture_set_for_res_paths:
  "texture_set_for pf fs r td names = Inr (Some ts) \<Longrightarrow> \<forall>(c, s)\<in>set ts. res_path r s"
proof (induction names)
  case Nil
  then show ?case by simp
next
  case (Cons nm names)
  show ?case
  proof (cases "glob pf fs td (nm @ ''*'')")
    case Nil
    with Cons show ?thesis by simp
  next
    case (Cons d ds)
    note g = this
    show ?thesis
    proof (cases "texture_set_of pf fs r d (remove_all ''_2K-JPG'' (name_of d)) channels")
      case (Inl e)
      with g Cons.prems show ?thesis by simp
    next
      case (Inr ts0)
      show ?thesis
      proof (cases "ts0 = []")
        case True
        with g Inr Cons.prems Cons.IH show ?thesis by simp
      next
        case False
        with g Inr Cons.prems have "ts = ts0" by simp
        with texture_set_of_res_paths [OF Inr] show ?thesis by simp
      qed
    qed
  qed
qed

lemma texture_sets_of_res_paths:
  "texture_sets_of pf fs r td maps = Inr sets \<Longrightarrow>
   \<forall>(k, ts)\<in>set sets. \<forall>(c, s)\<in>set ts. res_path r s"
proof (induction maps arbitrary: sets)
  case Nil
  then show ?case by simp
next
  case (Cons km maps)
  obtain key names where km: "km = (key, names)" by (cases km)
  from Cons.prems km obtain found sets' where f: "texture_set_for pf fs r td names = Inr found"
    and r: "texture_sets_of pf fs r td maps = Inr sets'"
    and s: "sets = (case found of None \<Rightarrow> sets' | Some ts \<Rightarrow> (key, ts) # sets')"
    by (auto split: sum.splits)
  show ?case
  proof (cases found)
    case None
    with s Cons.IH [OF r] show ?thesis by simp
  next
    case (Some ts)
    with f texture_set_for_res_paths have "\<forall>(c, s)\<in>set ts. res_path r s" by blast
    with Some s Cons.IH [OF r] show ?thesis by simp
  qed
qed

lemma build_texture_sets_res_paths:
  "build_texture_sets pf fs r td = Inr sets \<Longrightarrow>
   \<forall>(k, ts)\<in>set sets. \<forall>(c, s)\<in>set ts. res_path r s"
  by (auto simp: build_texture_sets_def split: if_splits dest!: texture_sets_of_res_paths)

lemma build_variant_pools_res_paths:
  "build_variant_pools pf fs r pack_dirs = Inr variants \<Longrightarrow>
   \<forall>(k, xs)\<in>set variants. \<forall>s\<in>set xs. res_path r s"
  unfolding build_variant_pools_def Let_def by (rule pools_res_paths)

text \<open>What a successful \<open>write_manifest\<close> has written.\<close>

lemma write_manifest_result:
  assumes "write_manifest pf project_root packs_dir textures_dir variants pack_dirs w = (Inr mp, w')"
  shows "\<exists>fs1 texture_sets packs_res textures_res.
           build_texture_sets pf fs1 project_root textures_dir = Inr texture_sets
         \<and> rel_res_path project_root packs_dir = Inr packs_res
         \<and> rel_res_path project_root textures_dir = Inr textures_res
         \<and> mp = manifest_path_of project_root
         \<and> map_of (files w') mp = Some (File (Json
             \<lparr>mf_version = 2,
              mf_generated_by = ''tools/fetch_assets.py'',
              mf_generated_at = clock pf,
              mf_use_external_assets = (pack_dirs \<noteq> []),
              mf_variants = (if pack_dirs = [] then empty_variants else variants),
              mf_textures = texture_sets,
              mf_packs_dir = packs_res,
              mf_textures_dir = textures_res,
              mf_status = \<lparr>assets_downloaded = (pack_dirs \<noteq> []),
                asset_count = length pack_dirs,
                warning = (if pack_dirs = []
                           then ''No assets were successfully downloaded. Using fallback values.''
                           else ''Assets downloaded successfully.'')\<rparr>\<rparr>))"
  using assms
  by (auto simp: write_manifest_def Let_def split: sum.splits dest!: map_of_write_file)

lemma main_result:
  assumes "find_project_root (files w) (project a) = Inr project_root" "\<not> list_assets a"
    and "main pf a w = (Inr rc, w')"
  shows "\<exists>variants w1.
           build_variant_pools pf (files w1) project_root
               (fst (fetch_everything pf (apply_all a) project_root w)) = Inr variants
         \<and> write_manifest pf project_root (project_root @ [''assets'', ''external'', ''packs''])
               (project_root @ [''assets'', ''external'', ''textures'', ''ambientcg'']) variants
               (fst (fetch_everything pf (apply_all a) project_root w)) w1
             = (Inr (manifest_path_of project_root), w')"
proof -
  obtain pack_dirs w1 where fe: "fetch_everything pf (apply_all a) project_root w = (pack_dirs, w1)"
    by force
  from assms fe obtain variants where bv: "build_variant_pools pf (files w1) project_root pack_dirs = Inr variants"
    by (auto simp: main_def Let_def split: sum.splits)
  from assms fe bv obtain mp where wm: "write_manifest pf project_root (project_root @ [''assets'', ''external'', ''packs''])
               (project_root @ [''assets'', ''external'', ''textures'', ''ambientcg'']) variants pack_dirs w1 = (Inr mp, w')"
    by (auto simp: main_def Let_def split: sum.splits prod.splits)
  from write_manifest_result [OF wm] have "mp = manifest_path_of project_root" by blast
  with fe bv wm show ?thesis by auto
qed

text \<open>
  C9. Whenever \<open>main\<close> has written the manifest, every entry of every variant pool, every
  channel of every texture set, \<open>packs_dir\<close> and \<open>textures_dir\<close> are resource paths of the
  project (the path of something below the project root, taken relative to the root) and
  begin with \<open>res://\<close>; so none of them is an absolute path of the file system.
\<close>

theorem C9_manifest_paths_are_res_paths:
  assumes "find_project_root (files w) (project a) = Inr project_root" "\<not> list_assets a"
    and "main pf a w = (Inr rc, w')"
  shows "\<exists>m. map_of (files w') (manifest_path_of project_root) = Some (File (Json m))
           \<and> (\<forall>(k, xs)\<in>set (mf_variants m). \<forall>s\<in>set xs.
                 res_path project_root s \<and> prefix ''res://'' s)
           \<and> (\<forall>(k, ts)\<in>set (mf_textures m). \<forall>(c, s)\<in>set ts.
                 res_path project_root s \<and> prefix ''res://'' s)
           \<and> res_path project_root (mf_packs_dir m) \<and> prefix ''res://'' (mf_packs_dir m)
           \<and> res_path project_root (mf_textures_dir m) \<and> prefix ''res://'' (mf_textures_dir m)"
proof -
  from main_result [OF assms] obtain variants w1 where
    bv: "build_variant_pools pf (files w1) project_root
               (fst (fetch_everything pf (apply_all a) project_root w)) = Inr variants"
    and wm: "write_manifest pf project_root (project_root @ [''assets'', ''external'', ''packs''])
               (project_root @ [''assets'', ''external'', ''textures'', ''ambientcg'']) variants
               (fst (fetch_everything pf (apply_all a) project_root w)) w1
             = (Inr (manifest_path_of project_root), w')"
    by blast
  have ev: "\<forall>(k, xs)\<in>set empty_variants. \<forall>s\<in>set xs. res_path project_root s"
    by (simp add: empty_variants_def)
  from write_manifest_result [OF wm] build_variant_pools_res_paths [OF bv] ev
  have "\<exists>m. map_of (files w') (manifest_path_of project_root) = Some (File (Json m))
           \<and> (\<forall>(k, xs)\<in>set (mf_variants m). \<forall>s\<in>set xs. res_path project_root s)
           \<and> (\<forall>(k, ts)\<in>set (mf_textures m). \<forall>(c, s)\<in>set ts. res_path project_root s)
           \<and> res_path project_root (mf_packs_dir m) \<and> res_path project_root (mf_textures_dir m)"
    by (auto dest!: build_texture_sets_res_paths rel_res_path_is_res_path split: if_splits)
  then show ?thesis
    by (fastforce dest: res_path_begins)
qed

theorem C9_manifest_paths_are_res_paths_witness:
  "find_project_root (files pack_cached_world) (project default_args) = Inr [''game'']
   \<and> \<not> list_assets default_args
   \<and> main offline default_args pack_cached_world = (Inr 0, pack_cached_after)
   \<and> (\<exists>m. map_of (files pack_cached_after) (manifest_path_of [''game'']) = Some (File (Json m))
          \<and> (\<forall>(k, xs)\<in>set (mf_variants m). \<forall>s\<in>set xs.
                res_path [''game''] s \<and> prefix ''res://'' s)
          \<and> (\<forall>(k, ts)\<in>set (mf_textures m). \<forall>(c, s)\<in>set ts.
                res_path [''game''] s \<and> prefix ''res://'' s)
          \<and> res_path [''game''] (mf_packs_dir m) \<and> prefix ''res://'' (mf_packs_dir m)
          \<and> res_path [''game''] (mf_textures_dir m) \<and> prefix ''res://'' (mf_textures_dir m))"
proof -
  have h1: "find_project_root (files pack_cached_world) (project default_args) = Inr [''game'']"
    by code_simp
  have h2: "\<not> list_assets default_args" by code_simp
  note h3 = main_pack_cached
  from C9_manifest_paths_are_res_paths [OF h1 h2 h3] h1 h2 h3
  show ?thesis by (intro conjI)
qed

subsection \<open>The flag \<open>use_external_assets\<close>\<close>




subsection \<open>The first candidate with a texture set wins\<close>

lemma texture_set_for_Cons:
  "texture_set_for pf fs r td (nm # rest) =
     (case candidate_set pf fs r td nm of
        Inl e \<Rightarrow> Inl e
      | Inr ts \<Rightarrow> if ts \<noteq> [] then Inr (Some ts) else texture_set_for pf fs r td rest)"
  by (simp add: candidate_set_def split: list.split sum.split)

lemma texture_set_for_Some_iff:
  "texture_set_for pf fs r td names = Inr (Some ts) \<longleftrightarrow>
   (\<exists>pre nm post. names = pre @ nm # post
      \<and> (\<forall>x\<in>set pre. candidate_set pf fs r td x = Inr [])
      \<and> candidate_set pf fs r td nm = Inr ts \<and> ts \<noteq> [])"
proof (induction names)
  case Nil
  then show ?case by simp
next
  case (Cons a names)
  show ?case
  proof (cases "candidate_set pf fs r td a")
    case (Inl e)
    have "\<not> (\<exists>pre nm post. a # names = pre @ nm # post
      \<and> (\<forall>x\<in>set pre. candidate_set pf fs r td x = Inr [])
      \<and> candidate_set pf fs r td nm = Inr ts \<and> ts \<noteq> [])"
    proof
      assume "\<exists>pre nm post. a # names = pre @ nm # post
        \<and> (\<forall>x\<in>set pre. candidate_set pf fs r td x = Inr [])
        \<and> candidate_set pf fs r td nm = Inr ts \<and> ts \<noteq> []"
      then obtain pre nm post where e: "a # names = pre @ nm # post"
        and p: "\<forall>x\<in>set pre. candidate_set pf fs r td x = Inr []"
        and n: "candidate_set pf fs r td nm = Inr ts" by blast
      show False
      proof (cases pre)
        case Nil
        with e n Inl show False by simp
      next
        case (Cons b pre')
        with e p Inl show False by simp
      qed
    qed
    with Inl show ?thesis by (simp only: texture_set_for_Cons sum.case) simp
  next
    case (Inr ts0)
    show ?thesis
    proof (cases "ts0 = []")
      case True
      have "(\<exists>pre nm post. a # names = pre @ nm # post
          \<and> (\<forall>x\<in>set pre. candidate_set pf fs r td x = Inr [])
          \<and> candidate_set pf fs r td nm = Inr ts \<and> ts \<noteq> [])
        \<longleftrightarrow> (\<exists>pre nm post. names = pre @ nm # post
          \<and> (\<forall>x\<in>set pre. candidate_set pf fs r td x = Inr [])
          \<and> candidate_set pf fs r td nm = Inr ts \<and> ts \<noteq> [])" (is "?L \<longleftrightarrow> ?R")
      proof
        assume ?L
        then obtain pre nm post where e: "a # names = pre @ nm # post"
          and p: "\<forall>x\<in>set pre. candidate_set pf fs r td x = Inr []"
          and n: "candidate_set pf fs r td nm = Inr ts" "ts \<noteq> []" by blast
        show ?R
        proof (cases pre)
          case Nil
          with e n Inr True show ?thesis by simp
        next
          case (Cons b pre')
          with e p n show ?thesis by auto
        qed
      next
        assume ?R
        then obtain pre nm post where e: "names = pre @ nm # post"
          and p: "\<forall>x\<in>set pre. candidate_set pf fs r td x = Inr []"
          and n: "candidate_set pf fs r td nm = Inr ts" "ts \<noteq> []" by blast
        from e have "a # names = (a # pre) @ nm # post" by simp
        moreover from p Inr True have "\<forall>x\<in>set (a # pre). candidate_set pf fs r td x = Inr []" by simp
        ultimately show ?L using n by blast
      qed
      with Inr True Cons.IH show ?thesis by (simp only: texture_set_for_Cons sum.case) simp
    next
      case False
      have "(\<exists>pre nm post. a # names = pre @ nm # post
          \<and> (\<forall>x\<in>set pre. candidate_set pf fs r td x = Inr [])
          \<and> candidate_set pf fs r td nm = Inr ts \<and> ts \<noteq> []) \<longleftrightarrow> ts = ts0" (is "?L \<longleftrightarrow> _")
      proof
        assume ?L
        then obtain pre nm post where e: "a # names = pre @ nm # post"
          and p: "\<forall>x\<in>set pre. candidate_set pf fs r td x = Inr []"
          and n: "candidate_set pf fs r td nm = Inr ts" "ts \<noteq> []" by blast
        show "ts = ts0"
        proof (cases pre)
          case Nil
          with e n Inr show ?thesis by simp
        next
          case (Cons b pre')
          with e p Inr False show ?thesis by simp
        qed
      next
        assume "ts = ts0"
        with Inr False have "a # names = [] @ a # names
          \<and> (\<forall>x\<in>set []. candidate_set pf fs r td x = Inr [])
          \<and> candidate_set pf fs r td a = Inr ts \<and> ts \<noteq> []" by simp
        then show ?L by blast
      qed
      with Inr False show ?thesis by (simp only: texture_set_for_Cons sum.case) auto
    qed
  qed
qed

lemma texture_set_for_None_iff:
  "texture_set_for pf fs r td names = Inr None \<longleftrightarrow>
   (\<forall>x\<in>set names. candidate_set pf fs r td x = Inr [])"
proof (induction names)
  case Nil
  then show ?case by simp
next
  case (Cons a names)
  then show ?case
    by (simp only: texture_set_for_Cons) (auto split: sum.splits)
qed


lemma texture_sets_of_keys:
  "texture_sets_of pf fs r td maps = Inr sets \<Longrightarrow> fst ` set sets \<subseteq> fst ` set maps"
proof (induction maps arbitrary: sets)
  case Nil
  then show ?case by simp
next
  case (Cons km maps)
  obtain k0 n0 where km: "km = (k0, n0)" by (cases km)
  from Cons.prems km obtain found sets' where
    r: "texture_sets_of pf fs r td maps = Inr sets'"
    and s: "sets = (case found of None \<Rightarrow> sets' | Some ts \<Rightarrow> (k0, ts) # sets')"
    by (auto split: sum.splits)
  from Cons.IH [OF r] s km show ?case by (cases found) auto
qed

lemma texture_sets_of_lookup:
  "distinct (map fst maps) \<Longrightarrow> texture_sets_of pf fs r td maps = Inr sets \<Longrightarrow>
   (key, names) \<in> set maps \<Longrightarrow> texture_set_for pf fs r td names = Inr (map_of sets key)"
proof (induction maps arbitrary: sets)
  case Nil
  then show ?case by simp
next
  case (Cons km maps)
  obtain k0 n0 where km: "km = (k0, n0)" by (cases km)
  from Cons.prems(2) km obtain found sets' where
    f: "texture_set_for pf fs r td n0 = Inr found"
    and r: "texture_sets_of pf fs r td maps = Inr sets'"
    and s: "sets = (case found of None \<Rightarrow> sets' | Some ts \<Rightarrow> (k0, ts) # sets')"
    by (auto split: sum.splits)
  from Cons.prems(1) km have k0: "k0 \<notin> fst ` set maps" and d: "distinct (map fst maps)" by auto
  show ?case
  proof (cases "key = k0")
    case True
    with Cons.prems(3) km k0 have names: "names = n0" by (auto simp: image_iff)
    from k0 texture_sets_of_keys [OF r] have "map_of sets' k0 = None"
      by (auto simp: map_of_eq_None_iff)
    with s True have "map_of sets key = found" by (cases found) auto
    with f names show ?thesis by simp
  next
    case False
    with Cons.prems(3) km have mem: "(key, names) \<in> set maps" by auto
    from s False have "map_of sets key = map_of sets' key" by (cases found) auto
    with Cons.IH [OF d r mem] show ?thesis by simp
  qed
qed

lemma glob_child: "p \<in> set (glob pf fs d pat) \<Longrightarrow> prefix d p"
proof -
  assume "p \<in> set (glob pf fs d pat)"
  then have "p \<noteq> []" "butlast p = d"
    by (auto simp: glob_def parent_def split: if_splits)
  then have "p = d @ [last p]" by (metis append_butlast_last_id)
  then show ?thesis by (metis prefixI)
qed

lemma rel_res_path_below: "prefix r p \<Longrightarrow> \<exists>s. rel_res_path r p = Inr s"
  by (simp add: rel_res_path_def Let_def)

lemma texture_set_of_total:
  "prefix r d \<Longrightarrow> \<exists>ts. texture_set_of pf fs r d b chans = Inr ts"
proof (induction chans)
  case Nil
  then show ?case by simp
next
  case (Cons ch chans)
  obtain chan ending where ch: "ch = (chan, ending)" by (cases ch)
  from Cons obtain ts where ts: "texture_set_of pf fs r d b chans = Inr ts" by auto
  show ?case
  proof (cases "glob pf fs d (b @ ''*'' @ ending)")
    case Nil
    with ch ts show ?thesis by simp
  next
    case (Cons f more)
    then have "f \<in> set (glob pf fs d (b @ ''*'' @ ending))" by simp
    from glob_child [OF this] Cons.prems have "prefix r f" by (rule prefix_order.trans [rotated])
    from rel_res_path_below [OF this] obtain s where "rel_res_path r f = Inr s" by auto
    with Cons ch ts show ?thesis by simp
  qed
qed

lemma candidate_set_total:
  "prefix r td \<Longrightarrow> \<exists>ts. candidate_set pf fs r td nm = Inr ts"
proof (cases "glob pf fs td (nm @ ''*'')")
  case Nil
  then show ?thesis by (simp add: candidate_set_def)
next
  case (Cons d ds)
  assume "prefix r td"
  moreover from Cons have "d \<in> set (glob pf fs td (nm @ ''*''))" by simp
  then have "prefix td d" by (rule glob_child)
  ultimately have "prefix r d" by (rule prefix_order.trans)
  from texture_set_of_total [OF this] Cons show ?thesis by (simp add: candidate_set_def)
qed

lemma texture_set_for_total:
  "prefix r td \<Longrightarrow> \<exists>found. texture_set_for pf fs r td names = Inr found"
proof (induction names)
  case Nil
  then show ?case by simp
next
  case (Cons a names)
  from candidate_set_total [OF Cons.prems] obtain ts where "candidate_set pf fs r td a = Inr ts"
    by blast
  with Cons show ?case by (simp only: texture_set_for_Cons) auto
qed

lemma texture_sets_of_total:
  "prefix r td \<Longrightarrow> \<exists>sets. texture_sets_of pf fs r td maps = Inr sets"
proof (induction maps)
  case Nil
  then show ?case by simp
next
  case (Cons km maps)
  obtain k0 n0 where km: "km = (k0, n0)" by (cases km)
  from texture_set_for_total [OF Cons.prems] obtain found
    where "texture_set_for pf fs r td n0 = Inr found" by blast
  with Cons km show ?case by auto
qed

lemma build_texture_sets_lookup:
  assumes "build_texture_sets pf fs r td = Inr sets" "(key, names) \<in> set texture_mappings"
  shows "texture_set_for pf fs r td names = Inr (map_of sets key)"
proof (cases "exists fs td")
  case True
  have "distinct (map fst texture_mappings)" by (simp add: texture_mappings_def)
  from texture_sets_of_lookup [OF this _ assms(2)] assms(1) True show ?thesis
    by (simp add: build_texture_sets_def)
next
  case False
  then have "glob pf fs td pat = []" for pat
    by (auto simp: glob_def exists_def is_dir_def)
  then have "candidate_set pf fs r td x = Inr []" for x
    by (simp add: candidate_set_def)
  then have "texture_set_for pf fs r td names = Inr None"
    by (simp add: texture_set_for_None_iff)
  with assms(1) False show ?thesis by (simp add: build_texture_sets_def)
qed

text \<open>
  C5, as amended. For a key, the candidate names are tried in order. The key gets the set
  \<open>ts\<close> exactly when some candidate yields the non-empty set \<open>ts\<close> and every candidate
  before it yields the empty set (no entry matches its name, or the first matching directory
  holds no channel file); what comes after that candidate plays no part. The key is absent
  from the output exactly when every candidate yields the empty set. With the textures
  directory below the project root the builder raises no error.
\<close>

theorem C5_first_nonempty_candidate_wins:
  "(texture_set_for pf fs r td names = Inr (Some ts) \<longleftrightarrow>
      (\<exists>pre nm post. names = pre @ nm # post
         \<and> (\<forall>x\<in>set pre. candidate_set pf fs r td x = Inr [])
         \<and> candidate_set pf fs r td nm = Inr ts \<and> ts \<noteq> []))
   \<and> (texture_set_for pf fs r td others = Inr None \<longleftrightarrow>
        (\<forall>x\<in>set others. candidate_set pf fs r td x = Inr []))
   \<and> (build_texture_sets pf fs r td = Inr sets \<and> (key, cands) \<in> set texture_mappings
        \<longrightarrow> texture_set_for pf fs r td cands = Inr (map_of sets key))
   \<and> (prefix r td \<longrightarrow> (\<exists>sets'. build_texture_sets pf fs r td = Inr sets'))"
  using texture_set_for_Some_iff [of pf fs r td names ts]
    texture_set_for_None_iff [of pf fs r td others]
    build_texture_sets_lookup [of pf fs r td sets key cands]
    texture_sets_of_total [of r td pf fs texture_mappings]
  by (simp add: build_texture_sets_def)

theorem C5_first_nonempty_candidate_wins_witness:
  "(\<exists>pre nm post. [''Bricks079'', ''Concrete023''] = pre @ nm # post
       \<and> (\<forall>x\<in>set pre. candidate_set offline bricks_empty [''game''] game_textures x = Inr [])
       \<and> candidate_set offline bricks_empty [''game''] game_textures nm = Inr concrete_albedo
       \<and> concrete_albedo \<noteq> [])
   \<and> candidate_set offline bricks_empty [''game''] game_textures ''Grass004'' = Inr []
   \<and> texture_set_for offline bricks_empty [''game''] game_textures [''Grass004'']
       = Inr (map_of bricks_empty_sets ''terrain_grass'')
   \<and> (\<exists>sets'. build_texture_sets offline bricks_empty [''game''] game_textures = Inr sets')"
proof -
  have a: "texture_set_for offline bricks_empty [''game''] game_textures [''Bricks079'', ''Concrete023'']
      = Inr (Some concrete_albedo)"
    by code_simp
  have b: "texture_set_for offline bricks_empty [''game''] game_textures [''Grass004''] = Inr None"
    by code_simp
  have c: "build_texture_sets offline bricks_empty [''game''] game_textures = Inr bricks_empty_sets"
    by code_simp
  have d: "(''terrain_grass'', [''Grass004'']) \<in> set texture_mappings"
    by (simp add: texture_mappings_def)
  have e: "prefix [''game''] game_textures" by code_simp
  note inst = C5_first_nonempty_candidate_wins
      [of offline bricks_empty "[''game'']" game_textures "[''Bricks079'', ''Concrete023'']"
          concrete_albedo "[''Grass004'']" bricks_empty_sets "''terrain_grass''" "[''Grass004'']"]
  from inst a have 1: "\<exists>pre nm post. [''Bricks079'', ''Concrete023''] = pre @ nm # post
       \<and> (\<forall>x\<in>set pre. candidate_set offline bricks_empty [''game''] game_textures x = Inr [])
       \<and> candidate_set offline bricks_empty [''game''] game_textures nm = Inr concrete_albedo
       \<and> concrete_albedo \<noteq> []"
    by (elim conjE) (erule iffD1)
  from inst b have "\<forall>x\<in>set [''Grass004'']. candidate_set offline bricks_empty [''game''] game_textures x = Inr []"
    by (elim conjE) (erule iffD1)
  then have 2: "candidate_set offline bricks_empty [''game''] game_textures ''Grass004'' = Inr []"
    by simp
  from inst c d have 3: "texture_set_for offline bricks_empty [''game''] game_textures [''Grass004'']
       = Inr (map_of bricks_empty_sets ''terrain_grass'')"
    by (elim conjE) (erule impE, rule conjI)
  from inst e have 4: "\<exists>sets'. build_texture_sets offline bricks_empty [''game''] game_textures = Inr sets'"
    by (elim conjE) (erule impE)
  from 1 2 3 4 show ?thesis by (intro conjI)
qed

text \<open>
  C5 as it was stated fails: the directory of \<open>Bricks079\<close>, the first candidate of
  \<open>building_atlas_euro\<close>, is on disk, and the key gets the set of the second candidate.
\<close>

theorem C5_empty_first_directory_counterexample:
  "glob offline bricks_empty game_textures ''Bricks079*'' = [game_textures @ [''Bricks079_2K-JPG'']]
   \<and> is_dir bricks_empty (game_textures @ [''Bricks079_2K-JPG''])
   \<and> build_texture_sets offline bricks_empty [''game''] game_textures
       = Inr [(''building_atlas_euro'',
               [(''albedo'',
                 ''res://assets/external/textures/ambientcg/Concrete023_2K-JPG/Concrete023_2K-JPG_Color.jpg'')]),
              (''building_atlas_industrial'',
               [(''albedo'',
                 ''res://assets/external/textures/ambientcg/Concrete023_2K-JPG/Concrete023_2K-JPG_Color.jpg'')]),
              (''terrain_pavement'',
               [(''albedo'',
                 ''res://assets/external/textures/ambientcg/Concrete023_2K-JPG/Concrete023_2K-JPG_Color.jpg'')])]"
  by code_simp

subsection \<open>Duplicates in the variant pools\<close>














end
